theory Spec2Isabelle
  imports Main "HOL-Library.Sublist" "HOL-Library.AList"
begin

section \<open>The project initialiser \<open>tools/init-project.js\<close>\<close>

text \<open>
  The script asks for the project's parameters on the console, records them in the
  module-level object \<open>projectConfig\<close>, creates a directory skeleton, writes a set of
  files derived from templates, runs \<open>npm install\<close> and three \<open>git\<close> commands, and
  prints a summary. The development below embeds each function of the script as a HOL
  function over an explicit world state (console, directories, files, commands run).

  Strings are byte strings: the UTF-8 text that the script reads, writes and prints.
  Characters outside ASCII in the script's literals are written as their UTF-8 bytes.
\<close>

subsection \<open>Strings\<close>

text \<open>
  \<open>String.prototype.toLowerCase\<close> and \<open>toUpperCase\<close> on ASCII letters; every other
  byte is left as it is. (JavaScript also converts letters outside ASCII; none of them
  converts to an ASCII \<open>n\<close> or \<open>y\<close>, the only letters the script compares with.)
\<close>

definition toLowerCase_char :: "char \<Rightarrow> char" where
  "toLowerCase_char c =
     (let n = (of_char c :: nat) in if 65 \<le> n \<and> n \<le> 90 then char_of (n + 32) else c)"

definition toLowerCase :: "string \<Rightarrow> string" where
  "toLowerCase s = map toLowerCase_char s"

definition toUpperCase_char :: "char \<Rightarrow> char" where
  "toUpperCase_char c =
     (let n = (of_char c :: nat) in if 97 \<le> n \<and> n \<le> 122 then char_of (n - 32) else c)"

definition toUpperCase :: "string \<Rightarrow> string" where
  "toUpperCase s = map toUpperCase_char s"

text \<open>
  \<open>s.charAt(0).toUpperCase() + s.slice(1)\<close>; \<open>charAt(0)\<close> of the empty string is empty.
  Here the first byte is converted, which is the first character when it is ASCII; a
  first character outside ASCII is left as it is, where JavaScript would convert it.
\<close>

definition capitalize :: "string \<Rightarrow> string" where
  "capitalize s = toUpperCase (take 1 s) @ drop 1 s"

text \<open>\<open>Array.prototype.join\<close> on strings.\<close>

fun join :: "string \<Rightarrow> string list \<Rightarrow> string" where
  "join sep [] = []"
| "join sep [x] = x"
| "join sep (x # y # ys) = x @ sep @ join sep (y # ys)"

text \<open>A template literal that spans several source lines: the lines joined by newlines.\<close>

definition lines :: "string list \<Rightarrow> string" where
  "lines ls = join [CHR 0x0A] ls"

text \<open>
  \<open>path.join\<close> on segments that need no normalisation (the script joins fixed names
  without \<open>.\<close>, \<open>..\<close> or slashes of their own).
\<close>

definition path_join :: "string list \<Rightarrow> string" where
  "path_join segs = join ''/'' segs"

text \<open>\<open>String.prototype.includes\<close>.\<close>

definition includes_str :: "string \<Rightarrow> string \<Rightarrow> bool" where
  "includes_str s t = sublist t s"

subsection \<open>Regular expressions and \<open>String.prototype.replace\<close>\<close>

text \<open>
  The script's regular expressions are sequences of literal characters, the wildcard
  \<open>.\<close> and the assertion \<open>$\<close>, all with the flag \<open>g\<close> and none with \<open>m\<close>. Such a
  pattern matches without backtracking.
\<close>

datatype atom = Lit char | AnyChar | EndOfInput

type_synonym regex = "atom list"

definition lit :: "string \<Rightarrow> regex" where
  "lit s = map Lit s"

text \<open>
  \<open>match_len p s\<close> is the length of the match of \<open>p\<close> at the start of \<open>s\<close>, if there
  is one. Without the flag \<open>m\<close>, \<open>$\<close> holds only at the end of the input; \<open>.\<close> matches
  every character but a line terminator.
\<close>

fun match_len :: "regex \<Rightarrow> string \<Rightarrow> nat option" where
  "match_len [] s = Some 0"
| "match_len (Lit c # p) [] = None"
| "match_len (Lit c # p) (x # xs) = (if x = c then map_option Suc (match_len p xs) else None)"
| "match_len (AnyChar # p) [] = None"
| "match_len (AnyChar # p) (x # xs) =
     (if x = CHR 0x0A \<or> x = CHR 0x0D then None else map_option Suc (match_len p xs))"
| "match_len (EndOfInput # p) s = (if s = [] then match_len p s else None)"

text \<open>
  \<open>GetSubstitution\<close> for a pattern without capture groups: in the replacement text
  \<open>$$\<close> stands for \<open>$\<close>, \<open>$&\<close> for the match, \<open>$`\<close> for the input before the match and
  \<open>$'\<close> for the input after it; every other character stands for itself.
\<close>

fun getSubstitution :: "string \<Rightarrow> string \<Rightarrow> string \<Rightarrow> string \<Rightarrow> string" where
  "getSubstitution matched preceding following [] = []"
| "getSubstitution matched preceding following [c] = [c]"
| "getSubstitution matched preceding following (c # d # r) =
     (if c = CHR ''$'' \<and> d = CHR ''$'' then CHR ''$'' # getSubstitution matched preceding following r
      else if c = CHR ''$'' \<and> d = CHR ''&'' then matched @ getSubstitution matched preceding following r
      else if c = CHR ''$'' \<and> d = CHR 0x60 then preceding @ getSubstitution matched preceding following r
      else if c = CHR ''$'' \<and> d = CHR 0x27 then following @ getSubstitution matched preceding following r
      else c # getSubstitution matched preceding following (d # r))"

text \<open>
  \<open>s.replace(/p/g, replacement)\<close>: the matches are found from left to right, each search
  starting where the last match ended (one character further after an empty match); the
  text between matches is kept. \<open>preceding\<close> is the input already passed. (A match of
  \<open>Suc n\<close> characters at \<open>c # cs\<close> leaves \<open>drop n cs\<close>.)
\<close>

fun replace_loop :: "regex \<Rightarrow> string \<Rightarrow> string \<Rightarrow> string \<Rightarrow> string" where
  "replace_loop p repl preceding [] =
     (case match_len p [] of
        None \<Rightarrow> []
      | Some n \<Rightarrow> getSubstitution [] preceding [] repl)"
| "replace_loop p repl preceding (c # cs) =
     (case match_len p (c # cs) of
        None \<Rightarrow> c # replace_loop p repl (preceding @ [c]) cs
      | Some 0 \<Rightarrow>
          getSubstitution [] preceding (c # cs) repl @ c # replace_loop p repl (preceding @ [c]) cs
      | Some (Suc n) \<Rightarrow>
          getSubstitution (take (Suc n) (c # cs)) preceding (drop n cs) repl @
          replace_loop p repl (preceding @ take (Suc n) (c # cs)) (drop n cs))"

definition replace_g :: "regex \<Rightarrow> string \<Rightarrow> string \<Rightarrow> string" where
  "replace_g p repl s = replace_loop p repl [] s"

subsection \<open>JSON values and property access\<close>

text \<open>
  The value \<open>JSON.parse\<close> returns. An object is the list of its own properties in
  property order. A number is carried as its text and never inspected.
\<close>

datatype json =
    JNull
  | JBool bool
  | JNum string
  | JStr string
  | JArr "json list"
  | JObj "(string \<times> json) list"

text \<open>An exception is represented by its \<open>message\<close>, the part the script prints.\<close>

type_synonym error = string

definition sq :: string where "sq = [CHR 0x27]"
definition dq :: string where "dq = [CHR 0x22]"
definition bq :: string where "bq = [CHR 0x60]"
definition fence :: string where "fence = bq @ bq @ bq"
definition box_tee :: string where
  "box_tee = [CHR 0xE2, CHR 0x94, CHR 0x9C, CHR 0xE2, CHR 0x94, CHR 0x80, CHR 0xE2, CHR 0x94, CHR 0x80]"
definition box_end :: string where
  "box_end = [CHR 0xE2, CHR 0x94, CHR 0x94, CHR 0xE2, CHR 0x94, CHR 0x80, CHR 0xE2, CHR 0x94, CHR 0x80]"
definition box_bar :: string where
  "box_bar = [CHR 0xE2, CHR 0x94, CHR 0x82]"

text \<open>
  \<open>v.k\<close> read: \<open>None\<close> is \<open>undefined\<close>. Reading a property of \<open>null\<close> throws a
  \<open>TypeError\<close>. The keys the script reads (\<open>repository\<close>, \<open>bugs\<close>, \<open>dependencies\<close>,
  \<open>devDependencies\<close>, \<open>scripts\<close>) are properties of no array, string, number or boolean.
\<close>

definition get_member :: "json \<Rightarrow> string \<Rightarrow> error + json option" where
  "get_member v k =
     (case v of
        JNull \<Rightarrow> Inl (''Cannot read properties of null (reading '' @ sq @ k @ sq @ '')'')
      | JObj kvs \<Rightarrow> Inr (map_of kvs k)
      | _ \<Rightarrow> Inr None)"

text \<open>
  \<open>v.k = x\<close> in a module (strict mode). On an object the property is replaced where it
  stands or added last; on an array it is set but \<open>JSON.stringify\<close> does not print it, and
  the script never reads it back; on \<open>null\<close> and on a primitive value the assignment
  throws a \<open>TypeError\<close>.
\<close>

definition set_member :: "json \<Rightarrow> string \<Rightarrow> json \<Rightarrow> error + json" where
  "set_member v k x =
     (case v of
        JObj kvs \<Rightarrow> Inr (JObj (AList.update k x kvs))
      | JArr xs \<Rightarrow> Inr (JArr xs)
      | JNull \<Rightarrow> Inl (''Cannot set properties of null (setting '' @ sq @ k @ sq @ '')'')
      | JBool b \<Rightarrow>
          Inl (''Cannot create property '' @ sq @ k @ sq @ '' on boolean '' @ sq @
               (if b then ''true'' else ''false'') @ sq)
      | JNum n \<Rightarrow> Inl (''Cannot create property '' @ sq @ k @ sq @ '' on number '' @ sq @ n @ sq)
      | JStr s \<Rightarrow> Inl (''Cannot create property '' @ sq @ k @ sq @ '' on string '' @ sq @ s @ sq))"

text \<open>
  \<open>delete v[k]\<close> for a key that is no index and not \<open>length\<close>: removes the property of an
  object, does nothing on an array or a primitive value, throws on \<open>null\<close>.
\<close>

definition delete_member :: "json \<Rightarrow> string \<Rightarrow> error + json" where
  "delete_member v k =
     (case v of
        JNull \<Rightarrow> Inl ''Cannot convert undefined or null to object''
      | JObj kvs \<Rightarrow> Inr (JObj (AList.delete k kvs))
      | _ \<Rightarrow> Inr v)"

definition and_then :: "error + 'a \<Rightarrow> ('a \<Rightarrow> error + 'b) \<Rightarrow> error + 'b" where
  "and_then r f = (case r of Inl e \<Rightarrow> Inl e | Inr x \<Rightarrow> f x)"

text \<open>
  \<open>obj.k.j = x\<close> and \<open>delete obj.k[j]\<close>: the operation \<open>f\<close> acts on the value that
  \<open>obj.k\<close> refers to, in place; \<open>undef\<close> is the message of the \<open>TypeError\<close> thrown when
  \<open>obj.k\<close> is \<open>undefined\<close>.
\<close>

definition in_member :: "json \<Rightarrow> string \<Rightarrow> error \<Rightarrow> (json \<Rightarrow> error + json) \<Rightarrow> error + json" where
  "in_member obj k undef f =
     and_then (get_member obj k) (\<lambda>m.
       case m of
         None \<Rightarrow> Inl undef
       | Some v \<Rightarrow>
           and_then (f v) (\<lambda>v'.
             Inr (case obj of JObj kvs \<Rightarrow> JObj (AList.update k v' kvs) | _ \<Rightarrow> obj)))"

definition set_in :: "json \<Rightarrow> string \<Rightarrow> string \<Rightarrow> json \<Rightarrow> error + json" where
  "set_in obj k j x =
     in_member obj k (''Cannot set properties of undefined (setting '' @ sq @ j @ sq @ '')'')
       (\<lambda>v. set_member v j x)"

definition delete_in :: "json \<Rightarrow> string \<Rightarrow> string \<Rightarrow> error + json" where
  "delete_in obj k j =
     in_member obj k ''Cannot convert undefined or null to object'' (\<lambda>v. delete_member v j)"

subsection \<open>The configuration record\<close>

record features =
  docker :: bool
  cicd :: bool
  database :: bool
  redis :: bool
  monitoring :: bool

record config =
  name :: string
  description :: string
  author :: string
  email :: string
  dockerUsername :: string
  githubUsername :: string
  database :: string
  features :: features

text \<open>The module-level \<open>projectConfig\<close> as the script initialises it.\<close>

definition projectConfig :: config where
  "projectConfig =
     \<lparr> name = [], description = [], author = [], email = [], dockerUsername = [],
       githubUsername = [], database = ''postgresql'',
       features = \<lparr> docker = True, cicd = True, database = True, redis = False,
                    monitoring = True \<rparr> \<rparr>"

subsection \<open>The world\<close>

text \<open>
  What a run reads from its surroundings: for every question asked on the console the
  line typed (or the error \<open>rl.question\<close> throws, as it does on a closed interface),
  the template files, the result of \<open>JSON.parse\<close>, and whether a directory creation,
  a file write or a child process fails, each with the error's message.
\<close>

record env =
  templateDir :: string
  readFile :: "string \<Rightarrow> error + string"
  JSON_parse :: "string \<Rightarrow> error + json"
  mkdir_error :: "string \<Rightarrow> error option"
  writeFile_error :: "string \<Rightarrow> error option"
  execSync_error :: "string \<Rightarrow> error option"

text \<open>
  What a run leaves behind: the console output in order, the directories created, the
  files written with their content, and the commands run. A file written with
  \<open>JSON.stringify(v, null, 2)\<close> is recorded as \<open>JsonText v\<close>.
\<close>

datatype console_line = Prompt string | Log string | Error string

datatype content = Text string | JsonText json

record world =
  stdin :: "(error + string) list"
  console :: "console_line list"
  dirs :: "string list"
  files :: "(string \<times> content) list"
  commands :: "string list"

text \<open>
  An \<open>async\<close> function: it returns, throws, or stays pending on a question that is never
  answered. The world is kept in each case.
\<close>

datatype 'a result = Return 'a | Throw error | Pending

type_synonym 'a io = "world \<Rightarrow> 'a result \<times> world"

definition ret :: "'a \<Rightarrow> 'a io" where
  "ret x w = (Return x, w)"

definition throw :: "error \<Rightarrow> 'a io" where
  "throw e w = (Throw e, w)"

definition bind :: "'a io \<Rightarrow> ('a \<Rightarrow> 'b io) \<Rightarrow> 'b io" where
  "bind m f w =
     (case m w of
        (Return x, w') \<Rightarrow> f x w'
      | (Throw e, w') \<Rightarrow> (Throw e, w')
      | (Pending, w') \<Rightarrow> (Pending, w'))"

definition seq :: "unit io \<Rightarrow> 'b io \<Rightarrow> 'b io" where
  "seq m n = bind m (\<lambda>_. n)"

definition try_catch :: "unit io \<Rightarrow> (error \<Rightarrow> unit io) \<Rightarrow> unit io" where
  "try_catch m h w =
     (case m w of
        (Throw e, w') \<Rightarrow> h e w'
      | r \<Rightarrow> r)"

definition lift :: "error + 'a \<Rightarrow> 'a io" where
  "lift r = (case r of Inl e \<Rightarrow> throw e | Inr x \<Rightarrow> ret x)"

definition console_log :: "string \<Rightarrow> unit io" where
  "console_log s w = (Return (), w\<lparr>console := console w @ [Log s]\<rparr>)"

definition console_error :: "string \<Rightarrow> unit io" where
  "console_error s w = (Return (), w\<lparr>console := console w @ [Error s]\<rparr>)"

text \<open>
  \<open>question\<close>: \<open>rl.question\<close> prints the prompt and the promise resolves with the next
  line. With no line left the promise stays pending.
\<close>

definition question :: "string \<Rightarrow> string io" where
  "question prompt w =
     (case stdin w of
        [] \<Rightarrow> (Pending, w\<lparr>console := console w @ [Prompt prompt]\<rparr>)
      | Inl e # rest \<Rightarrow> (Throw e, w\<lparr>stdin := rest\<rparr>)
      | Inr answer # rest \<Rightarrow>
          (Return answer, w\<lparr>stdin := rest, console := console w @ [Prompt prompt]\<rparr>))"

definition fs_mkdir :: "env \<Rightarrow> string \<Rightarrow> unit io" where
  "fs_mkdir env dir w =
     (case mkdir_error env dir of
        Some e \<Rightarrow> (Throw e, w)
      | None \<Rightarrow> (Return (), w\<lparr>dirs := dirs w @ [dir]\<rparr>))"

definition fs_readFile :: "env \<Rightarrow> string \<Rightarrow> string io" where
  "fs_readFile env path = lift (readFile env path)"

definition fs_writeFile :: "env \<Rightarrow> string \<Rightarrow> content \<Rightarrow> unit io" where
  "fs_writeFile env path c w =
     (case writeFile_error env path of
        Some e \<Rightarrow> (Throw e, w)
      | None \<Rightarrow> (Return (), w\<lparr>files := files w @ [(path, c)]\<rparr>))"

definition fs_copyFile :: "env \<Rightarrow> string \<Rightarrow> string \<Rightarrow> unit io" where
  "fs_copyFile env src dest = bind (fs_readFile env src) (\<lambda>bytes. fs_writeFile env dest (Text bytes))"

definition execSync :: "env \<Rightarrow> string \<Rightarrow> unit io" where
  "execSync env cmd w =
     (case execSync_error env cmd of
        Some e \<Rightarrow> (Throw e, w\<lparr>commands := commands w @ [cmd]\<rparr>)
      | None \<Rightarrow> (Return (), w\<lparr>commands := commands w @ [cmd]\<rparr>))"

subsection \<open>\<open>showWelcome\<close> and \<open>collectProjectInfo\<close>\<close>

definition showWelcome :: "unit io" where
  "showWelcome =
     seq (console_log ([CHR 0xF0, CHR 0x9F, CHR 0x9A, CHR 0x80] @ '' Node.js DevOps Project Initializer''))
    (seq (console_log ''====================================='')
    (seq (console_log ''This tool will help you set up a new Node.js project with DevOps best practices.'')
         (console_log [])))"

text \<open>\<open>a || b\<close> on strings: the empty string is the only falsy one.\<close>

definition or_else :: "string \<Rightarrow> string \<Rightarrow> string" where
  "or_else a b = (if a = [] then b else a)"

definition dbTypePrompt :: string where
  "dbTypePrompt = ''Database type (postgresql/mysql/mongodb) [postgresql]: ''"

text \<open>
  The script updates the fields of \<open>projectConfig\<close> one by one; here the record is passed
  in and the updated record is returned.
\<close>

definition collectProjectInfo :: "config \<Rightarrow> config io" where
  "collectProjectInfo cfg0 =
     seq (console_log ([CHR 0xF0, CHR 0x9F, CHR 0x93, CHR 0x9D] @ '' Project Information''))
    (seq (console_log ''----------------------'')
    (bind (question ''Project name: '') (\<lambda>a. let cfg1 = cfg0\<lparr>name := a\<rparr> in
     bind (question ''Project description (optional): '') (\<lambda>a.
       let cfg2 = cfg1\<lparr>description :=
                    or_else a (name cfg1 @ '' - A Node.js API with DevOps practices'')\<rparr> in
     bind (question ''Author name: '') (\<lambda>a. let cfg3 = cfg2\<lparr>author := a\<rparr> in
     bind (question ''Author email: '') (\<lambda>a. let cfg4 = cfg3\<lparr>email := a\<rparr> in
     bind (question ''GitHub username: '') (\<lambda>a. let cfg5 = cfg4\<lparr>githubUsername := a\<rparr> in
     bind (question ''Docker Hub username (optional): '') (\<lambda>a.
       let cfg6 = cfg5\<lparr>dockerUsername := or_else a (githubUsername cfg5)\<rparr> in
     seq (console_log [])
    (seq (console_log ([CHR 0xF0, CHR 0x9F, CHR 0x94, CHR 0xA7] @ '' Features Selection''))
    (seq (console_log ''---------------------'')
    (bind (question ''Include Docker configuration? (y/n) [y]: '') (\<lambda>dockerChoice.
       let cfg7 = cfg6\<lparr>features := (features cfg6)\<lparr>docker := toLowerCase dockerChoice \<noteq> ''n''\<rparr>\<rparr> in
     bind (question ''Include CI/CD workflows? (y/n) [y]: '') (\<lambda>cicdChoice.
       let cfg8 = cfg7\<lparr>features := (features cfg7)\<lparr>cicd := toLowerCase cicdChoice \<noteq> ''n''\<rparr>\<rparr> in
     bind (question ''Include database configuration? (y/n) [y]: '') (\<lambda>databaseChoice.
       let cfg9 = cfg8\<lparr>features :=
                    (features cfg8)\<lparr>features.database := toLowerCase databaseChoice \<noteq> ''n''\<rparr>\<rparr> in
     bind (if features.database (features cfg9)
           then bind (question dbTypePrompt) (\<lambda>dbType.
                  ret (cfg9\<lparr>config.database := or_else dbType ''postgresql''\<rparr>))
           else ret cfg9) (\<lambda>cfg10.
     bind (question ''Include Redis configuration? (y/n) [n]: '') (\<lambda>redisChoice.
       let cfg11 = cfg10\<lparr>features := (features cfg10)\<lparr>redis := toLowerCase redisChoice = ''y''\<rparr>\<rparr> in
     bind (question ''Include monitoring setup? (y/n) [y]: '') (\<lambda>monitoringChoice.
       ret (cfg11\<lparr>features :=
              (features cfg11)\<lparr>monitoring := toLowerCase monitoringChoice \<noteq> ''n''\<rparr>\<rparr>))))))))))))))))))"

subsection \<open>\<open>createProjectStructure\<close>\<close>

definition base_directories :: "string list" where
  "base_directories =
     [''src'', ''src/config'', ''src/controllers'', ''src/middleware'', ''src/models'',
      ''src/routes'', ''src/services'', ''src/utils'', ''src/validations'', ''tests'',
      ''tests/unit'', ''tests/integration'', ''logs'', ''scripts'']"

definition directories :: "config \<Rightarrow> string list" where
  "directories cfg =
     base_directories
     @ (if docker (features cfg) then [''nginx''] else [])
     @ (if cicd (features cfg) then [''.github'', ''.github/workflows''] else [])"

definition created :: string where
  "created = ''  '' @ [CHR 0xE2, CHR 0x9C, CHR 0x85] @ '' Created: ''"

fun mkdir_each :: "env \<Rightarrow> string list \<Rightarrow> unit io" where
  "mkdir_each env [] = ret ()"
| "mkdir_each env (dir # ds) =
     seq (fs_mkdir env dir) (seq (console_log (created @ dir @ ''/'')) (mkdir_each env ds))"

definition createProjectStructure :: "env \<Rightarrow> config \<Rightarrow> unit io" where
  "createProjectStructure env cfg =
     seq (console_log [])
    (seq (console_log ([CHR 0xF0, CHR 0x9F, CHR 0x93, CHR 0x81] @ '' Creating project structure...''))
         (mkdir_each env (directories cfg)))"

subsection \<open>\<open>processPackageJson\<close>\<close>

definition github_url :: "config \<Rightarrow> string" where
  "github_url cfg = ''https://github.com/'' @ githubUsername cfg @ ''/'' @ name cfg"

text \<open>The six \<open>delete\<close> statements of the branch for a project without a database.\<close>

definition delete_database_entries :: "json \<Rightarrow> error + json" where
  "delete_database_entries p6 =
     and_then (delete_in p6 ''dependencies'' ''drizzle-orm'') (\<lambda>p7.
     and_then (delete_in p7 ''dependencies'' ''@neondatabase/serverless'') (\<lambda>p8.
     and_then (delete_in p8 ''devDependencies'' ''drizzle-kit'') (\<lambda>p9.
     and_then (delete_in p9 ''scripts'' ''db:generate'') (\<lambda>p10.
     and_then (delete_in p10 ''scripts'' ''db:migrate'') (\<lambda>p11.
     delete_in p11 ''scripts'' ''db:studio'')))))"

text \<open>The assignments and deletions on the parsed template, in the script's order.\<close>

definition fill_package :: "config \<Rightarrow> json \<Rightarrow> error + json" where
  "fill_package cfg packageTemplate =
     and_then (set_member packageTemplate ''name'' (JStr (name cfg))) (\<lambda>p1.
     and_then (set_member p1 ''description'' (JStr (description cfg))) (\<lambda>p2.
     and_then (set_member p2 ''author'' (JStr (author cfg @ '' <'' @ email cfg @ ''>''))) (\<lambda>p3.
     and_then (set_in p3 ''repository'' ''url'' (JStr (''git+'' @ github_url cfg @ ''.git''))) (\<lambda>p4.
     and_then (set_in p4 ''bugs'' ''url'' (JStr (github_url cfg @ ''/issues''))) (\<lambda>p5.
     and_then (set_member p5 ''homepage'' (JStr (github_url cfg @ ''#readme''))) (\<lambda>p6.
     if \<not> features.database (features cfg) then delete_database_entries p6
     else Inr p6))))))"

definition processPackageJson :: "env \<Rightarrow> config \<Rightarrow> unit io" where
  "processPackageJson env cfg =
     bind (fs_readFile env (path_join [templateDir env, ''config'', ''package.json''])) (\<lambda>text.
     bind (lift (JSON_parse env text)) (\<lambda>packageTemplate.
     bind (lift (fill_package cfg packageTemplate)) (\<lambda>package.
     seq (fs_writeFile env ''package.json'' (JsonText package))
         (console_log (created @ ''package.json'')))))"

subsection \<open>\<open>processEnvFiles\<close>\<close>

definition env_content :: "config \<Rightarrow> string \<Rightarrow> string" where
  "env_content cfg envTemplate =
     replace_g (lit ''your-docker-username'') (dockerUsername cfg)
       (replace_g (lit ''your-app-name'') (name cfg) envTemplate)"

definition processEnvFiles :: "env \<Rightarrow> config \<Rightarrow> unit io" where
  "processEnvFiles env cfg =
     bind (fs_readFile env (path_join [templateDir env, ''config'', ''.env.example''])) (\<lambda>envTemplate.
     seq (fs_writeFile env ''.env.example'' (Text (env_content cfg envTemplate)))
    (seq (fs_writeFile env ''.env'' (Text (env_content cfg envTemplate)))
    (seq (console_log (created @ ''.env.example''))
         (console_log (created @ ''.env'')))))"

subsection \<open>The texts the script writes\<close>

text \<open>
  The template literals of \<open>processDockerFiles\<close>, \<open>createBaseCodeFiles\<close> and
  \<open>createConfigFiles\<close>, one list element for each line.
\<close>

definition dockerignore :: string where
  "dockerignore = lines
    [
     ''node_modules'',
     ''npm-debug.log'',
     ''.env'',
     ''.env.local'',
     ''.env.development'',
     ''.env.production'',
     ''logs/'',
     ''coverage/'',
     ''.nyc_output'',
     ''.git'',
     ''.gitignore'',
     ''README.md'',
     ''Dockerfile'',
     ''.dockerignore'',
     ''docker-compose*.yml''
    ]"

definition indexJs :: string where
  "indexJs = lines
    [
     ''import '' @ sq @ ''dotenv/config'' @ sq @ '';'',
     ''import server from '' @ sq @ ''./server.js'' @ sq @ '';'',
     [],
     ''const PORT = process.env.PORT || 3000;'',
     [],
     ''server.listen(PORT, () => {'',
     ''  console.log('' @ bq @ [CHR 0xF0, CHR 0x9F, CHR 0x9A, CHR 0x80] @ '' Server running on port ${PORT}'' @ bq @ '');'',
     ''  console.log('' @ bq @ [CHR 0xF0, CHR 0x9F, CHR 0x93, CHR 0x8A] @ '' Environment: ${process.env.NODE_ENV || '' @ sq @ ''development'' @ sq @ ''}'' @ bq @ '');'',
     ''  console.log('' @ bq @ [CHR 0xF0, CHR 0x9F, CHR 0x94, CHR 0x97] @ '' Local URL: http://localhost:${PORT}'' @ bq @ '');'',
     ''});'',
     []
    ]"

definition serverJs :: "config \<Rightarrow> string" where
  "serverJs cfg = lines
    [
     ''import express from '' @ sq @ ''express'' @ sq @ '';'',
     ''import cors from '' @ sq @ ''cors'' @ sq @ '';'',
     ''import helmet from '' @ sq @ ''helmet'' @ sq @ '';'',
     ''import morgan from '' @ sq @ ''morgan'' @ sq @ '';'',
     [],
     ''const app = express();'',
     [],
     ''// '' @ [CHR 0xE5, CHR 0xAE, CHR 0x89, CHR 0xE5, CHR 0x85, CHR 0xA8, CHR 0xE4, CHR 0xB8, CHR 0xAD, CHR 0xE9, CHR 0x97, CHR 0xB4, CHR 0xE4, CHR 0xBB, CHR 0xB6],
     ''app.use(helmet());'',
     [],
     ''// CORS'' @ [CHR 0xE9, CHR 0x85, CHR 0x8D, CHR 0xE7, CHR 0xBD, CHR 0xAE],
     ''app.use(cors({'',
     ''  origin: process.env.CORS_ORIGIN?.split('' @ sq @ '','' @ sq @ '') || '' @ sq @ ''http://localhost:3000'' @ sq @ '','',
     ''  credentials: true,'',
     ''}));'',
     [],
     ''// '' @ [CHR 0xE6, CHR 0x97, CHR 0xA5, CHR 0xE5, CHR 0xBF, CHR 0x97, CHR 0xE4, CHR 0xB8, CHR 0xAD, CHR 0xE9, CHR 0x97, CHR 0xB4, CHR 0xE4, CHR 0xBB, CHR 0xB6],
     ''app.use(morgan('' @ sq @ ''combined'' @ sq @ ''));'',
     [],
     ''// '' @ [CHR 0xE8, CHR 0xAF, CHR 0xB7, CHR 0xE6, CHR 0xB1, CHR 0x82, CHR 0xE8, CHR 0xA7, CHR 0xA3, CHR 0xE6, CHR 0x9E, CHR 0x90],
     ''app.use(express.json());'',
     ''app.use(express.urlencoded({ extended: true }));'',
     [],
     ''// '' @ [CHR 0xE5, CHR 0x81, CHR 0xA5, CHR 0xE5, CHR 0xBA, CHR 0xB7, CHR 0xE6, CHR 0xA3, CHR 0x80, CHR 0xE6, CHR 0x9F, CHR 0xA5, CHR 0xE7, CHR 0xAB, CHR 0xAF, CHR 0xE7, CHR 0x82, CHR 0xB9],
     ''app.get('' @ sq @ ''/health'' @ sq @ '', (req, res) => {'',
     ''  res.status(200).json({'',
     ''    status: '' @ sq @ ''OK'' @ sq @ '','',
     ''    timestamp: new Date().toISOString(),'',
     ''    uptime: process.uptime(),'',
     ''    environment: process.env.NODE_ENV || '' @ sq @ ''development'' @ sq @ '','',
     ''  });'',
     ''});'',
     [],
     ''// '' @ [CHR 0xE5, CHR 0x9F, CHR 0xBA, CHR 0xE7, CHR 0xA1, CHR 0x80, CHR 0xE8, CHR 0xB7, CHR 0xAF, CHR 0xE7, CHR 0x94, CHR 0xB1],
     ''app.get('' @ sq @ ''/'' @ sq @ '', (req, res) => {'',
     ''  res.json({'',
     ''    message: '' @ sq @ ''Welcome to '' @ name cfg @ '' API'' @ sq @ '','',
     ''    version: '' @ sq @ ''1.0.0'' @ sq @ '','',
     ''    environment: process.env.NODE_ENV || '' @ sq @ ''development'' @ sq @ '','',
     ''  });'',
     ''});'',
     [],
     ''// '' @ [CHR 0xE9, CHR 0x94, CHR 0x99, CHR 0xE8, CHR 0xAF, CHR 0xAF, CHR 0xE5, CHR 0xA4, CHR 0x84, CHR 0xE7, CHR 0x90, CHR 0x86, CHR 0xE4, CHR 0xB8, CHR 0xAD, CHR 0xE9, CHR 0x97, CHR 0xB4, CHR 0xE4, CHR 0xBB, CHR 0xB6],
     ''app.use((err, req, res, next) => {'',
     ''  console.error(err.stack);'',
     ''  res.status(500).json({'',
     ''    error: '' @ sq @ ''Something went wrong!'' @ sq @ '','',
     ''    message: process.env.NODE_ENV === '' @ sq @ ''development'' @ sq @ '' ? err.message : '' @ sq @ ''Internal Server Error'' @ sq @ '','',
     ''  });'',
     ''});'',
     [],
     ''// 404'' @ [CHR 0xE5, CHR 0xA4, CHR 0x84, CHR 0xE7, CHR 0x90, CHR 0x86],
     ''app.use('' @ sq @ ''*'' @ sq @ '', (req, res) => {'',
     ''  res.status(404).json({'',
     ''    error: '' @ sq @ ''Route not found'' @ sq @ '','',
     ''    path: req.originalUrl,'',
     ''  });'',
     ''});'',
     [],
     ''export default app;'',
     []
    ]"

definition gitignore :: string where
  "gitignore = lines
    [
     ''# Dependencies'',
     ''node_modules/'',
     ''npm-debug.log*'',
     ''yarn-debug.log*'',
     ''yarn-error.log*'',
     [],
     ''# Environment variables'',
     ''.env'',
     ''.env.local'',
     ''.env.development'',
     ''.env.production'',
     [],
     ''# Logs'',
     ''logs'',
     ''*.log'',
     [],
     ''# Runtime data'',
     ''pids'',
     ''*.pid'',
     ''*.seed'',
     ''*.pid.lock'',
     [],
     ''# Coverage directory used by tools like istanbul'',
     ''coverage/'',
     ''.nyc_output'',
     [],
     ''# Dependency directories'',
     ''node_modules/'',
     ''jspm_packages/'',
     [],
     ''# Optional npm cache directory'',
     ''.npm'',
     [],
     ''# Optional eslint cache'',
     ''.eslintcache'',
     [],
     ''# Build outputs'',
     ''dist/'',
     ''build/'',
     [],
     ''# IDE files'',
     ''.vscode/'',
     ''.idea/'',
     ''*.swp'',
     ''*.swo'',
     ''*~'',
     [],
     ''# OS generated files'',
     ''.DS_Store'',
     ''.DS_Store?'',
     ''._*'',
     ''.Spotlight-V100'',
     ''.Trashes'',
     ''ehthumbs.db'',
     ''Thumbs.db'',
     [],
     ''# Docker'',
     ''.docker/'',
     [],
     ''# Database'',
     ''*.db'',
     ''*.sqlite'',
     []
    ]"

definition readme :: "config \<Rightarrow> string" where
  "readme cfg = lines
    [
     ''# '' @ name cfg,
     [],
     description cfg,
     [],
     ''## '' @ [CHR 0xF0, CHR 0x9F, CHR 0x9A, CHR 0x80] @ '' Quick Start'',
     [],
     ''### Prerequisites'',
     [],
     ''- Node.js 18+'',
     ''- npm 9+'',
     (if docker (features cfg) then ''- Docker & Docker Compose (optional)'' else []),
     [],
     ''### Installation'',
     [],
     fence @ ''bash'',
     ''# Clone the repository'',
     ''git clone https://github.com/'' @ githubUsername cfg @ ''/'' @ name cfg @ ''.git'',
     ''cd '' @ name cfg,
     [],
     ''# Install dependencies'',
     ''npm install'',
     [],
     ''# Copy environment variables'',
     ''cp .env.example .env'',
     ''# Update .env with your configuration'',
     [],
     ''# Start development server'',
     ''npm run dev'',
     fence,
     [],
     (if docker (features cfg) then lines
        [''### Docker Development'',
        [],
        fence @ ''bash'',
        ''# Start with Docker'',
        ''npm run dev:docker'',
        [],
        ''# Stop containers'',
        ''npm run docker:down'',
        fence,
         []]
      else []),
     [],
     ''## '' @ [CHR 0xF0, CHR 0x9F, CHR 0x93, CHR 0x9A] @ '' Available Scripts'',
     [],
     ''- '' @ bq @ ''npm run dev'' @ bq @ '' - Start development server with hot reload'',
     ''- '' @ bq @ ''npm run start'' @ bq @ '' - Start production server'',
     ''- '' @ bq @ ''npm run lint'' @ bq @ '' - Run ESLint'',
     ''- '' @ bq @ ''npm run lint:fix'' @ bq @ '' - Fix ESLint issues'',
     ''- '' @ bq @ ''npm run format'' @ bq @ '' - Format code with Prettier'',
     ''- '' @ bq @ ''npm run test'' @ bq @ '' - Run tests'',
     (if docker (features cfg) then lines
        [''- '' @ bq @ ''npm run dev:docker'' @ bq @ '' - Start development with Docker'',
         ''- '' @ bq @ ''npm run prod:docker'' @ bq @ '' - Start production with Docker'']
      else []),
     [],
     ''## '' @ [CHR 0xF0, CHR 0x9F, CHR 0x8F, CHR 0x97, CHR 0xEF, CHR 0xB8, CHR 0x8F] @ '' Project Structure'',
     [],
     fence,
     name cfg @ ''/'',
     box_tee @ '' src/'',
     box_bar @ ''   '' @ box_tee @ '' config/         # Configuration files'',
     box_bar @ ''   '' @ box_tee @ '' controllers/    # Request handlers'',
     box_bar @ ''   '' @ box_tee @ '' middleware/     # Custom middleware'',
     box_bar @ ''   '' @ box_tee @ '' models/         # Data models'',
     box_bar @ ''   '' @ box_tee @ '' routes/         # Route definitions'',
     box_bar @ ''   '' @ box_tee @ '' services/       # Business logic'',
     box_bar @ ''   '' @ box_tee @ '' utils/          # Utility functions'',
     box_bar @ ''   '' @ box_end @ '' validations/    # Input validation schemas'',
     box_tee @ '' tests/              # Test files'',
     box_tee @ '' logs/               # Application logs'',
     box_end @ '' scripts/            # Build and deployment scripts'',
     fence,
     [],
     ''## '' @ [CHR 0xF0, CHR 0x9F, CHR 0x93, CHR 0xA6] @ '' Tech Stack'',
     [],
     ''- **Runtime**: Node.js 18+'',
     ''- **Framework**: Express.js'',
     ''- **Validation**: Zod'',
     ''- **Testing**: Jest'',
     ''- **Code Quality**: ESLint + Prettier'',
     (if features.database (features cfg) then ''- **Database**: '' @ capitalize (config.database cfg) else []),
     (if docker (features cfg) then ''- **Containerization**: Docker'' else []),
     (if cicd (features cfg) then ''- **CI/CD**: GitHub Actions'' else []),
     [],
     ''## '' @ [CHR 0xF0, CHR 0x9F, CHR 0xA4, CHR 0x9D] @ '' Contributing'',
     [],
     ''1. Fork the repository'',
     ''2. Create your feature branch ('' @ bq @ ''git checkout -b feature/amazing-feature'' @ bq @ '')'',
     ''3. Commit your changes ('' @ bq @ ''git commit -m '' @ sq @ ''Add some amazing feature'' @ sq @ bq @ '')'',
     ''4. Push to the branch ('' @ bq @ ''git push origin feature/amazing-feature'' @ bq @ '')'',
     ''5. Open a Pull Request'',
     [],
     ''## '' @ [CHR 0xF0, CHR 0x9F, CHR 0x93, CHR 0x84] @ '' License'',
     [],
     ''This project is licensed under the MIT License - see the [LICENSE](LICENSE) file for details.'',
     [],
     ''## '' @ [CHR 0xF0, CHR 0x9F, CHR 0x91, CHR 0xA8, CHR 0xE2, CHR 0x80, CHR 0x8D, CHR 0xF0, CHR 0x9F, CHR 0x92, CHR 0xBB] @ '' Author'',
     [],
     ''**'' @ author cfg @ ''**'',
     ''- Email: '' @ email cfg,
     ''- GitHub: [@'' @ githubUsername cfg @ ''](https://github.com/'' @ githubUsername cfg @ '')'',
     []
    ]"

subsection \<open>\<open>processDockerFiles\<close>\<close>

text \<open>
  The pattern of the script's regular expression literal
  \<^verbatim>\<open>/\\$\\{PROJECT_NAME:-app\\}/g\<close>: each \<^verbatim>\<open>\\\<close> is an escaped backslash, so the pattern
  is a backslash, the assertion \<open>$\<close>, a backslash, the characters \<open>{PROJECT_NAME:-app\<close>,
  a backslash and \<open>}\<close>.
\<close>

definition project_name_regex :: regex where
  "project_name_regex =
     [Lit (CHR 0x5C), EndOfInput, Lit (CHR 0x5C)] @ lit ''{PROJECT_NAME:-app''
     @ [Lit (CHR 0x5C)] @ lit ''}''"

definition compose_content :: "config \<Rightarrow> string \<Rightarrow> string" where
  "compose_content cfg compose =
     replace_g project_name_regex (''${PROJECT_NAME:-'' @ name cfg @ ''}'') compose"

definition processDockerFiles :: "env \<Rightarrow> config \<Rightarrow> unit io" where
  "processDockerFiles env cfg =
     seq (fs_copyFile env (path_join [templateDir env, ''docker'', ''Dockerfile'']) ''Dockerfile'')
    (seq (console_log (created @ ''Dockerfile''))
    (bind (fs_readFile env (path_join [templateDir env, ''docker'', ''docker-compose.dev.yml'']))
       (\<lambda>devCompose.
     seq (fs_writeFile env ''docker-compose.dev.yml'' (Text (compose_content cfg devCompose)))
    (seq (console_log (created @ ''docker-compose.dev.yml''))
    (bind (fs_readFile env (path_join [templateDir env, ''docker'', ''docker-compose.prod.yml'']))
       (\<lambda>prodCompose.
     seq (fs_writeFile env ''docker-compose.prod.yml'' (Text (compose_content cfg prodCompose)))
    (seq (console_log (created @ ''docker-compose.prod.yml''))
    (seq (fs_writeFile env ''.dockerignore'' (Text dockerignore))
         (console_log (created @ ''.dockerignore''))))))))))"

subsection \<open>\<open>processCICDFiles\<close>\<close>

text \<open>
  The second pattern of \<open>processCICDFiles\<close>, read up to the final \<open>/g\<close> of its line:
  a backslash, the assertion \<open>$\<close>, then backslashes, braces, the text \<open> secrets\<close>, a
  backslash, the wildcard, \<open>DOCKER_USERNAME \<close>, again backslashes and braces, a
  backslash, a slash and \<open>your-app-name\<close>. (As the line stands in the script, the
  slash after the last escaped backslash closes the literal and leaves \<open>your\<close> where
  the flags belong, which a JavaScript engine refuses when it loads the file: see
  \<open>node\<close> below. The functions are embedded one by one as they are written; for this
  one pattern, which as written is no pattern, the reading given here is used.)
\<close>

definition image_name_regex :: regex where
  "image_name_regex =
     [Lit (CHR 0x5C), EndOfInput, Lit (CHR 0x5C), Lit (CHR ''{''), Lit (CHR 0x5C), Lit (CHR ''{'')]
     @ lit '' secrets'' @ [Lit (CHR 0x5C), AnyChar] @ lit ''DOCKER_USERNAME ''
     @ [Lit (CHR 0x5C), Lit (CHR ''}''), Lit (CHR 0x5C), Lit (CHR ''}''), Lit (CHR 0x5C)]
     @ lit ''/your-app-name''"

definition workflow_content :: "config \<Rightarrow> string \<Rightarrow> string" where
  "workflow_content cfg content =
     replace_g image_name_regex (''${{ secrets.DOCKER_USERNAME }}/'' @ name cfg)
       (replace_g (lit ''your-app-name'') (name cfg) content)"

definition workflows :: "string list" where
  "workflows = [''lint-and-format.yml'', ''tests.yml'', ''docker-build-and-push.yml'']"

fun workflow_each :: "env \<Rightarrow> config \<Rightarrow> string list \<Rightarrow> unit io" where
  "workflow_each env cfg [] = ret ()"
| "workflow_each env cfg (workflow # rest) =
     bind (fs_readFile env (path_join [templateDir env, ''ci-cd'', workflow])) (\<lambda>content.
     seq (fs_writeFile env (path_join [''.github'', ''workflows'', workflow])
            (Text (workflow_content cfg content)))
    (seq (console_log (created @ ''.github/workflows/'' @ workflow))
         (workflow_each env cfg rest)))"

definition processCICDFiles :: "env \<Rightarrow> config \<Rightarrow> unit io" where
  "processCICDFiles env cfg = workflow_each env cfg workflows"

subsection \<open>\<open>createBaseCodeFiles\<close> and \<open>createConfigFiles\<close>\<close>

definition createBaseCodeFiles :: "env \<Rightarrow> config \<Rightarrow> unit io" where
  "createBaseCodeFiles env cfg =
     seq (fs_writeFile env ''src/index.js'' (Text indexJs))
    (seq (console_log (created @ ''src/index.js''))
    (seq (fs_writeFile env ''src/server.js'' (Text (serverJs cfg)))
         (console_log (created @ ''src/server.js''))))"

definition createConfigFiles :: "env \<Rightarrow> config \<Rightarrow> unit io" where
  "createConfigFiles env cfg =
     seq (fs_writeFile env ''.gitignore'' (Text gitignore))
    (seq (console_log (created @ ''.gitignore''))
    (seq (fs_writeFile env ''README.md'' (Text (readme cfg)))
         (console_log (created @ ''README.md''))))"

subsection \<open>\<open>processTemplateFiles\<close>\<close>

definition processTemplateFiles :: "env \<Rightarrow> config \<Rightarrow> unit io" where
  "processTemplateFiles env cfg =
     seq (console_log [])
    (seq (console_log ([CHR 0xF0, CHR 0x9F, CHR 0x93, CHR 0x84] @ '' Processing template files...''))
    (seq (processPackageJson env cfg)
    (seq (processEnvFiles env cfg)
    (seq (if docker (features cfg) then processDockerFiles env cfg else ret ())
    (seq (if cicd (features cfg) then processCICDFiles env cfg else ret ())
    (seq (createBaseCodeFiles env cfg)
         (createConfigFiles env cfg)))))))"

subsection \<open>\<open>installDependencies\<close> and \<open>initializeGit\<close>\<close>

definition install_failed :: string where
  "install_failed = ''  '' @ [CHR 0xE2, CHR 0x9D, CHR 0x8C] @ '' Failed to install dependencies:''"

definition install_hint :: string where
  "install_hint =
     ''  '' @ [CHR 0xE2, CHR 0x84, CHR 0xB9, CHR 0xEF, CHR 0xB8, CHR 0x8F]
     @ ''  You can install them manually later with: npm install''"

definition installDependencies :: "env \<Rightarrow> unit io" where
  "installDependencies env =
     seq (console_log [])
    (seq (console_log ([CHR 0xF0, CHR 0x9F, CHR 0x93, CHR 0xA6] @ '' Installing dependencies...''))
    (try_catch
       (seq (execSync env ''npm install'')
            (console_log (''  '' @ [CHR 0xE2, CHR 0x9C, CHR 0x85] @ '' Dependencies installed successfully'')))
       (\<lambda>e. seq (console_error (install_failed @ '' '' @ e))
                 (console_log install_hint))))"

definition git_commit :: string where
  "git_commit =
     ''git commit -m '' @ dq @ ''Initial commit: Project setup with DevOps template'' @ dq"

definition git_failed :: string where
  "git_failed = ''  '' @ [CHR 0xE2, CHR 0x9D, CHR 0x8C] @ '' Failed to initialize Git:''"

definition git_hint :: string where
  "git_hint =
     ''  '' @ [CHR 0xE2, CHR 0x84, CHR 0xB9, CHR 0xEF, CHR 0xB8, CHR 0x8F]
     @ ''  You can initialize it manually later with: git init''"

definition initializeGit :: "env \<Rightarrow> unit io" where
  "initializeGit env =
     seq (console_log [])
    (seq (console_log ([CHR 0xF0, CHR 0x9F, CHR 0x94, CHR 0x84] @ '' Initializing Git repository...''))
    (try_catch
       (seq (execSync env ''git init'')
       (seq (execSync env ''git add .'')
       (seq (execSync env git_commit)
            (console_log (''  '' @ [CHR 0xE2, CHR 0x9C, CHR 0x85] @ '' Git repository initialized'')))))
       (\<lambda>e. seq (console_error (git_failed @ '' '' @ e))
                 (console_log git_hint))))"

text \<open>
  The message of the first \<open>git\<close> command that fails, if one does, and the commands that
  \<open>initializeGit\<close> runs: each one only if those before it succeeded.
\<close>

definition git_error :: "env \<Rightarrow> error option" where
  "git_error env =
     (case execSync_error env ''git init'' of
        Some e \<Rightarrow> Some e
      | None \<Rightarrow>
         (case execSync_error env ''git add .'' of
            Some e \<Rightarrow> Some e
          | None \<Rightarrow> execSync_error env git_commit))"

definition git_commands :: "env \<Rightarrow> string list" where
  "git_commands env =
     ''git init'' #
     (case execSync_error env ''git init'' of
        Some e \<Rightarrow> []
      | None \<Rightarrow>
         ''git add .'' #
         (case execSync_error env ''git add .'' of
            Some e \<Rightarrow> []
          | None \<Rightarrow> [git_commit]))"

subsection \<open>\<open>showCompletion\<close> and \<open>main\<close>\<close>

definition completed :: string where
  "completed = [CHR 0xF0, CHR 0x9F, CHR 0x8E, CHR 0x89] @ '' Project initialization completed!''"

definition showCompletion :: "config \<Rightarrow> unit io" where
  "showCompletion cfg =
     seq (console_log [])
    (seq (console_log completed)
    (seq (console_log ''==================================='')
    (seq (console_log [])
    (seq (console_log ''Next steps:'')
    (seq (console_log ''1. Update .env file with your configuration'')
    (seq (console_log ''2. Review and customize the generated files'')
    (seq (if cicd (features cfg) then
            seq (console_log ''3. Set up GitHub repository secrets:'')
           (seq (console_log ''   - DOCKER_USERNAME'')
           (seq (console_log ''   - DOCKER_PASSWORD'')
           (seq (if features.database (features cfg) then
                   seq (console_log ''   - DATABASE_URL'')
                       (console_log ''   - TEST_DATABASE_URL'')
                 else ret ())
                (console_log ''   - JWT_SECRET''))))
          else ret ())
    (seq (console_log [])
    (seq (console_log ''Start development:'')
    (seq (if docker (features cfg) then console_log ''  npm run dev:docker  # With Docker''
          else ret ())
    (seq (console_log ''  npm run dev         # Local development'')
    (seq (console_log [])
         (console_log (''Happy coding! '' @ [CHR 0xF0, CHR 0x9F, CHR 0x9A, CHR 0x80]))))))))))))))"

text \<open>The body of the \<open>try\<close> block of \<open>main\<close>.\<close>

definition main_body :: "env \<Rightarrow> unit io" where
  "main_body env =
     seq showWelcome
    (bind (collectProjectInfo projectConfig) (\<lambda>cfg.
     seq (createProjectStructure env cfg)
    (seq (processTemplateFiles env cfg)
    (seq (installDependencies env)
    (seq (initializeGit env)
         (showCompletion cfg))))))"

text \<open>
  How the process ends: with an exit status. After the \<open>try\<close> block returns,
  \<open>rl.close()\<close> lets the process end with status 0; the \<open>catch\<close> clause prints the
  message and calls \<open>process.exit(1)\<close>. When the input ends while a question is pending,
  the promise never settles, nothing is left to wait for, and the process ends with
  status 0 where it stands: neither the \<open>catch\<close> nor the \<open>finally\<close> clause runs.
\<close>

datatype ending = Exited nat

definition init_failed :: string where
  "init_failed = [CHR 0xE2, CHR 0x9D, CHR 0x8C] @ '' Error during initialization:''"

definition main :: "env \<Rightarrow> world \<Rightarrow> ending \<times> world" where
  "main env w =
     (case main_body env w of
        (Return u, w') \<Rightarrow> (Exited 0, w')
      | (Throw e, w') \<Rightarrow> (Exited 1, w'\<lparr>console := console w' @ [Error (init_failed @ '' '' @ e)]\<rparr>)
      | (Pending, w') \<Rightarrow> (Exited 0, w'))"

subsection \<open>Loading the module\<close>

text \<open>
  Before any statement of the module runs, the engine reads the whole file, and a
  regular expression literal with a flag it does not know is an early error: the file is
  refused and nothing of it is executed. Only the regular expression literals are
  examined here; one refused literal is enough for the file to be refused.

  The lexer reads a literal from its opening slash: the body runs up to the first slash
  that is neither escaped by a backslash nor inside a class \<open>[...]\<close> and may not cross a
  line end; the flags are the identifier characters that follow the closing slash.
  \<open>regex_body\<close> returns the body and the text after the closing slash.
\<close>

definition line_terminator :: "char \<Rightarrow> bool" where
  "line_terminator c \<longleftrightarrow> c = CHR 0x0A \<or> c = CHR 0x0D"

fun regex_body :: "bool \<Rightarrow> string \<Rightarrow> (string \<times> string) option" where
  "regex_body in_class [] = None"
| "regex_body in_class (c # cs) =
     (if line_terminator c then None
      else if c = CHR 0x5C then
        (case cs of
           [] \<Rightarrow> None
         | d # ds \<Rightarrow>
             if line_terminator d then None
             else map_option (\<lambda>(body, rest). (c # d # body, rest)) (regex_body in_class ds))
      else if c = CHR ''/'' \<and> \<not> in_class then Some ([], cs)
      else map_option (\<lambda>(body, rest). (c # body, rest))
             (regex_body (if c = CHR ''['' then True else if c = CHR '']'' then False else in_class)
                cs))"

text \<open>The ASCII identifier characters: letters, digits, \<open>$\<close> and \<open>_\<close>.\<close>

definition identifier_part :: "char \<Rightarrow> bool" where
  "identifier_part c \<longleftrightarrow>
     (let n = (of_char c :: nat) in
        (65 \<le> n \<and> n \<le> 90) \<or> (97 \<le> n \<and> n \<le> 122) \<or> (48 \<le> n \<and> n \<le> 57)
        \<or> c = CHR ''$'' \<or> c = CHR ''_'')"

definition regex_flags :: "string \<Rightarrow> string" where
  "regex_flags rest = takeWhile identifier_part rest"

text \<open>The flags are taken from \<open>d g i m s u v y\<close>, none of them twice.\<close>

definition flags_ok :: "string \<Rightarrow> bool" where
  "flags_ok fl \<longleftrightarrow> distinct fl \<and> set fl \<subseteq> set ''dgimsuvy''"

definition regex_literal_ok :: "string \<Rightarrow> bool" where
  "regex_literal_ok src =
     (case src of
        [] \<Rightarrow> False
      | c # cs \<Rightarrow>
          c = CHR ''/''
          \<and> (case regex_body False cs of
                None \<Rightarrow> False
              | Some (body, rest) \<Rightarrow> flags_ok (regex_flags rest)))"

text \<open>
  The regular expression literals of the script, each from its opening slash to the end
  of its line: the two of \<open>processEnvFiles\<close>, the two of \<open>processDockerFiles\<close> and the two
  of \<open>processCICDFiles\<close>, named by their line.
\<close>

definition regex_316 :: string where
  "regex_316 =
     ''/your-app-name/g, projectConfig.name);''"

definition regex_317 :: string where
  "regex_317 =
     ''/your-docker-username/g, projectConfig.dockerUsername);''"

definition regex_337 :: string where
  "regex_337 =
     ''/'' @ [CHR 0x5C, CHR 0x5C] @ ''$'' @ [CHR 0x5C, CHR 0x5C] @ ''{PROJECT_NAME:-app''
     @ [CHR 0x5C, CHR 0x5C] @ ''}/g, '' @ bq @ [CHR 0x5C]
     @ ''${PROJECT_NAME:-${projectConfig.name}}'' @ bq @ '');''"

definition regex_343 :: string where
  "regex_343 =
     ''/'' @ [CHR 0x5C, CHR 0x5C] @ ''$'' @ [CHR 0x5C, CHR 0x5C] @ ''{PROJECT_NAME:-app''
     @ [CHR 0x5C, CHR 0x5C] @ ''}/g, '' @ bq @ [CHR 0x5C]
     @ ''${PROJECT_NAME:-${projectConfig.name}}'' @ bq @ '');''"

definition regex_379 :: string where
  "regex_379 =
     ''/your-app-name/g, projectConfig.name);''"

definition regex_380 :: string where
  "regex_380 =
     ''/'' @ [CHR 0x5C, CHR 0x5C] @ ''$'' @ [CHR 0x5C, CHR 0x5C] @ ''{'' @ [CHR 0x5C, CHR 0x5C]
     @ ''{ secrets'' @ [CHR 0x5C, CHR 0x5C] @ ''.DOCKER_USERNAME '' @ [CHR 0x5C, CHR 0x5C]
     @ ''}'' @ [CHR 0x5C, CHR 0x5C] @ ''}'' @ [CHR 0x5C, CHR 0x5C] @ ''/your-app-name/g, ''"

definition regex_literals :: "string list" where
  "regex_literals = [regex_316, regex_317, regex_337, regex_343, regex_379, regex_380]"

definition module_loads :: bool where
  "module_loads = list_all regex_literal_ok regex_literals"

text \<open>
  \<open>node tools/init-project.js\<close>: the module is loaded, and then \<open>main\<close> is called. When
  the file is refused, the engine reports the \<open>SyntaxError\<close> on its own and the process
  ends with status 1; the script has printed nothing, and the world is as it was.
\<close>

definition node :: "env \<Rightarrow> world \<Rightarrow> ending \<times> world" where
  "node env w = (if module_loads then main env w else (Exited 1, w))"

subsection \<open>Reading a manifest\<close>

text \<open>
  The member \<open>k\<close> of a JSON object as \<open>JSON.stringify\<close> prints it, and whether there is
  one.
\<close>

definition field :: "json \<Rightarrow> string \<Rightarrow> json option" where
  "field v k = (case v of JObj kvs \<Rightarrow> map_of kvs k | _ \<Rightarrow> None)"

definition has_key :: "json \<Rightarrow> string \<Rightarrow> bool" where
  "has_key v k \<longleftrightarrow> field v k \<noteq> None"

text \<open>
  The value at a path of keys; the content last written to a file; the manifest written
  to \<open>package.json\<close>.
\<close>

fun json_at :: "json \<Rightarrow> string list \<Rightarrow> json option" where
  "json_at v [] = Some v"
| "json_at v (k # ks) = (case field v k of None \<Rightarrow> None | Some x \<Rightarrow> json_at x ks)"

definition file_content :: "world \<Rightarrow> string \<Rightarrow> content option" where
  "file_content w path = map_of (rev (files w)) path"

definition manifest :: "world \<Rightarrow> json option" where
  "manifest w = (case file_content w ''package.json'' of Some (JsonText v) \<Rightarrow> Some v | _ \<Rightarrow> None)"

text \<open>
  A manifest without its database entries, as the specification words it: the same
  manifest, but for the absence of the database-related keys in \<open>dependencies\<close>,
  \<open>devDependencies\<close> and \<open>scripts\<close>.
\<close>

definition without_keys :: "string list \<Rightarrow> json \<Rightarrow> json" where
  "without_keys ks v =
     (case v of JObj kvs \<Rightarrow> JObj (filter (\<lambda>(k, x). k \<notin> set ks) kvs) | _ \<Rightarrow> v)"

definition without_database_keys :: "json \<Rightarrow> json" where
  "without_database_keys package =
     (case package of
        JObj kvs \<Rightarrow>
          JObj (AList.map_entry ''scripts''
                  (without_keys [''db:generate'', ''db:migrate'', ''db:studio''])
               (AList.map_entry ''devDependencies'' (without_keys [''drizzle-kit''])
               (AList.map_entry ''dependencies''
                  (without_keys [''drizzle-orm'', ''@neondatabase/serverless'']) kvs)))
      | _ \<Rightarrow> package)"

text \<open>
  The members of a JSON document, each by its path from the root: the names of the
  members passed on the way down, the member's own name last (an array element counts as
  one step). A document mentions a key when one of its members bears that name.
\<close>

datatype step = Member string | Element

fun members :: "json \<Rightarrow> step list list" where
  "members (JObj kvs) = concat (map (\<lambda>(k, v). [Member k] # map ((#) (Member k)) (members v)) kvs)"
| "members (JArr xs) = concat (map (\<lambda>v. map ((#) Element) (members v)) xs)"
| "members v = []"

definition mentions :: "json \<Rightarrow> string \<Rightarrow> bool" where
  "mentions v k \<longleftrightarrow> (\<exists>p \<in> set (members v). last p = Member k)"

text \<open>An object as \<open>JSON.parse\<close> returns it has no key twice.\<close>

definition unique_keys :: "json \<Rightarrow> bool" where
  "unique_keys v = (case v of JObj kvs \<Rightarrow> distinct (map fst kvs) | _ \<Rightarrow> True)"

text \<open>
  The database-related keys of the manifest, and the six entries that the script deletes.
\<close>

definition database_keys :: "string list" where
  "database_keys =
     [''drizzle-orm'', ''@neondatabase/serverless'', ''drizzle-kit'',
      ''db:generate'', ''db:migrate'', ''db:studio'']"

definition deleted_entries :: "step list list" where
  "deleted_entries =
     [[Member ''dependencies'', Member ''drizzle-orm''],
      [Member ''dependencies'', Member ''@neondatabase/serverless''],
      [Member ''devDependencies'', Member ''drizzle-kit''],
      [Member ''scripts'', Member ''db:generate''],
      [Member ''scripts'', Member ''db:migrate''],
      [Member ''scripts'', Member ''db:studio'']]"

subsection \<open>Literal replacement\<close>

text \<open>
  Replacing a placeholder token by a value, as the specification words it: every
  occurrence of the token \<open>t\<close>, found from left to right, gives way to the text \<open>r\<close>.
\<close>

fun replace_all :: "string \<Rightarrow> string \<Rightarrow> string \<Rightarrow> string" where
  "replace_all t r [] = []"
| "replace_all t r (c # cs) =
     (if t \<noteq> [] \<and> prefix t (c # cs) then r @ replace_all t r (drop (length t - 1) cs)
      else c # replace_all t r cs)"

text \<open>
  A replacement text that \<open>String.prototype.replace\<close> inserts as it is: it holds none of
  the patterns \<open>$$\<close>, \<open>$&\<close>, \<open>$`\<close> and \<open>$'\<close>.
\<close>

fun plain :: "string \<Rightarrow> bool" where
  "plain [] = True"
| "plain [c] = True"
| "plain (c # d # r) =
     (\<not> (c = CHR ''$'' \<and> (d = CHR ''$'' \<or> d = CHR ''&'' \<or> d = CHR 0x60 \<or> d = CHR 0x27))
      \<and> plain (d # r))"

text \<open>
  A value \<open>v\<close> completes a token \<open>t\<close> when, put into some text, it can be part of an
  occurrence of \<open>t\<close>: it contains \<open>t\<close>, or it begins with a proper ending of \<open>t\<close>, or
  it ends with a proper beginning of \<open>t\<close>, or it lies inside \<open>t\<close> with something of
  \<open>t\<close> on either side (as the empty value does in a token of two characters or more).
\<close>

definition completes :: "string \<Rightarrow> string \<Rightarrow> bool" where
  "completes v t \<longleftrightarrow>
     sublist t v
     \<or> (\<exists>p \<in> set (prefixes v). p \<noteq> [] \<and> strict_suffix p t)
     \<or> (\<exists>q \<in> set (suffixes v). q \<noteq> [] \<and> strict_prefix q t)
     \<or> (\<exists>x \<in> set (prefixes t). \<exists>y \<in> set (suffixes t). x \<noteq> [] \<and> y \<noteq> [] \<and> t = x @ v @ y)"

subsection \<open>Steps that succeed\<close>

text \<open>
  A step that returns from every world and neither reads the console nor creates a
  directory nor runs a command.
\<close>

definition quiet :: "unit io \<Rightarrow> bool" where
  "quiet m \<longleftrightarrow>
     (\<forall>w. fst (m w) = Return () \<and> stdin (snd (m w)) = stdin w \<and> dirs (snd (m w)) = dirs w
          \<and> commands (snd (m w)) = commands w)"

subsection \<open>Example inputs\<close>

text \<open>A fresh world with the given answers waiting on the console.\<close>

definition world0 :: "(error + string) list \<Rightarrow> world" where
  "world0 input = \<lparr>stdin = input, console = [], dirs = [], files = [], commands = []\<rparr>"

text \<open>
  Surroundings in which no template can be read and nothing else fails.
\<close>

definition env0 :: env where
  "env0 = \<lparr>templateDir = ''/opt/template/templates'', readFile = (\<lambda>p. Inl ''ENOENT''),
     JSON_parse = (\<lambda>t. Inl ''Unexpected end of JSON input''), mkdir_error = (\<lambda>d. None),
     writeFile_error = (\<lambda>p. None), execSync_error = (\<lambda>c. None)\<rparr>"

text \<open>
  Surroundings with a small template in every place the script reads, and in which
  nothing fails. (The repository's own templates are not part of the sources at hand;
  these stand in for them in the examples.)
\<close>

definition example_package_text :: string where
  "example_package_text = lines
    [''{'',
     ''  '' @ dq @ ''name'' @ dq @ '': '' @ dq @ ''your-app-name'' @ dq @ '','',
     ''  '' @ dq @ ''scripts'' @ dq @ '': {'',
     ''    '' @ dq @ ''dev'' @ dq @ '': '' @ dq @ ''node --watch src/index.js'' @ dq @ '','',
     ''    '' @ dq @ ''db:generate'' @ dq @ '': '' @ dq @ ''drizzle-kit generate'' @ dq @ '','',
     ''    '' @ dq @ ''db:migrate'' @ dq @ '': '' @ dq @ ''drizzle-kit migrate'' @ dq @ '','',
     ''    '' @ dq @ ''db:studio'' @ dq @ '': '' @ dq @ ''drizzle-kit studio'' @ dq,
     ''  },'',
     ''  '' @ dq @ ''repository'' @ dq @ '': {'',
     ''    '' @ dq @ ''type'' @ dq @ '': '' @ dq @ ''git'' @ dq @ '','',
     ''    '' @ dq @ ''url'' @ dq @ '': '' @ dq @ dq,
     ''  },'',
     ''  '' @ dq @ ''bugs'' @ dq @ '': {'',
     ''    '' @ dq @ ''url'' @ dq @ '': '' @ dq @ dq,
     ''  },'',
     ''  '' @ dq @ ''dependencies'' @ dq @ '': {'',
     ''    '' @ dq @ ''express'' @ dq @ '': '' @ dq @ ''^5.1.0'' @ dq @ '','',
     ''    '' @ dq @ ''drizzle-orm'' @ dq @ '': '' @ dq @ ''^0.44.0'' @ dq @ '','',
     ''    '' @ dq @ ''@neondatabase/serverless'' @ dq @ '': '' @ dq @ ''^1.0.0'' @ dq,
     ''  },'',
     ''  '' @ dq @ ''devDependencies'' @ dq @ '': {'',
     ''    '' @ dq @ ''eslint'' @ dq @ '': '' @ dq @ ''^9.0.0'' @ dq @ '','',
     ''    '' @ dq @ ''drizzle-kit'' @ dq @ '': '' @ dq @ ''^0.31.0'' @ dq,
     ''  }'',
     ''}'']"

definition example_package :: json where
  "example_package =
     JObj
       [(''name'', JStr ''your-app-name''),
        (''scripts'', JObj
          [(''dev'', JStr ''node --watch src/index.js''),
           (''db:generate'', JStr ''drizzle-kit generate''),
           (''db:migrate'', JStr ''drizzle-kit migrate''),
           (''db:studio'', JStr ''drizzle-kit studio'')]),
        (''repository'', JObj
          [(''type'', JStr ''git''),
           (''url'', JStr [])]),
        (''bugs'', JObj
          [(''url'', JStr [])]),
        (''dependencies'', JObj
          [(''express'', JStr ''^5.1.0''),
           (''drizzle-orm'', JStr ''^0.44.0''),
           (''@neondatabase/serverless'', JStr ''^1.0.0'')]),
        (''devDependencies'', JObj
          [(''eslint'', JStr ''^9.0.0''),
           (''drizzle-kit'', JStr ''^0.31.0'')])]"

definition example_templates :: "(string \<times> string) list" where
  "example_templates =
     [(''/opt/template/templates/config/package.json'', example_package_text),
      (''/opt/template/templates/config/.env.example'',
         lines [''APP_NAME=your-app-name'', ''DOCKER_IMAGE=your-docker-username/your-app-name'',
                ''PORT=3000'']),
      (''/opt/template/templates/docker/Dockerfile'', lines [''FROM node:20-alpine'', []]),
      (''/opt/template/templates/docker/docker-compose.dev.yml'',
         lines [''services:'', ''  app:'', ''    container_name: ${PROJECT_NAME:-app}-dev'']),
      (''/opt/template/templates/docker/docker-compose.prod.yml'',
         lines [''services:'', ''  app:'', ''    container_name: ${PROJECT_NAME:-app}-prod'']),
      (''/opt/template/templates/ci-cd/lint-and-format.yml'', ''name: Lint your-app-name''),
      (''/opt/template/templates/ci-cd/tests.yml'', ''name: Tests''),
      (''/opt/template/templates/ci-cd/docker-build-and-push.yml'',
         ''tags: ${{ secrets.DOCKER_USERNAME }}/your-app-name:latest'')]"

definition env1 :: env where
  "env1 =
     \<lparr>templateDir = ''/opt/template/templates'',
      readFile = (\<lambda>p. case map_of example_templates p of
                         Some t \<Rightarrow> Inr t
                       | None \<Rightarrow> Inl (''ENOENT: no such file or directory, open '' @ sq @ p @ sq)),
      JSON_parse = (\<lambda>t. if t = example_package_text then Inr example_package
                         else Inl ''Unexpected token in JSON''),
      mkdir_error = (\<lambda>d. None),
      writeFile_error = (\<lambda>p. None),
      execSync_error = (\<lambda>c. None)\<rparr>"

text \<open>The configuration of the specification's scenario.\<close>

definition demo :: config where
  "demo =
     \<lparr> name = ''demo'', description = ''demo - A Node.js API with DevOps practices'',
       author = ''Ann'', email = ''ann@example.org'', dockerUsername = ''alice'',
       githubUsername = ''alice'', database = ''postgresql'',
       features = \<lparr> docker = True, cicd = True, database = True, redis = False,
                    monitoring = True \<rparr> \<rparr>"

text \<open>The same configuration without the database feature.\<close>

definition demo_without_database :: config where
  "demo_without_database = demo\<lparr>features := (features demo)\<lparr>features.database := False\<rparr>\<rparr>"

text \<open>
  The answers that make the collector return \<open>demo\<close>: a name, an author, an e-mail
  address and a GitHub user, and an empty line at every other prompt.
\<close>

definition demo_answers :: "(error + string) list" where
  "demo_answers =
     map Inr [''demo'', [], ''Ann'', ''ann@example.org'', ''alice'', [], [], [], [], [], [], []]"

text \<open>The example surroundings with \<open>npm install\<close> and \<open>git init\<close> failing.\<close>

definition env2 :: env where
  "env2 = env1\<lparr>execSync_error :=
     (\<lambda>c. if c = ''npm install'' then Some ''Command failed: npm install''
          else if c = ''git init'' then Some ''Command failed: git init''
          else None)\<rparr>"

text \<open>
  A manifest template that lists \<open>drizzle-kit\<close> among the \<open>dependencies\<close> and
  \<open>drizzle-orm\<close> among the \<open>devDependencies\<close>, and the example surroundings with this
  template in the place of the other.
\<close>

definition misplaced_package_text :: string where
  "misplaced_package_text = lines
    [''{'',
     ''  '' @ dq @ ''scripts'' @ dq @ '': {'',
     ''    '' @ dq @ ''dev'' @ dq @ '': '' @ dq @ ''node --watch src/index.js'' @ dq,
     ''  },'',
     ''  '' @ dq @ ''repository'' @ dq @ '': {'',
     ''    '' @ dq @ ''type'' @ dq @ '': '' @ dq @ ''git'' @ dq @ '','',
     ''    '' @ dq @ ''url'' @ dq @ '': '' @ dq @ dq,
     ''  },'',
     ''  '' @ dq @ ''bugs'' @ dq @ '': {'',
     ''    '' @ dq @ ''url'' @ dq @ '': '' @ dq @ dq,
     ''  },'',
     ''  '' @ dq @ ''dependencies'' @ dq @ '': {'',
     ''    '' @ dq @ ''express'' @ dq @ '': '' @ dq @ ''^5.1.0'' @ dq @ '','',
     ''    '' @ dq @ ''drizzle-kit'' @ dq @ '': '' @ dq @ ''^0.31.0'' @ dq,
     ''  },'',
     ''  '' @ dq @ ''devDependencies'' @ dq @ '': {'',
     ''    '' @ dq @ ''eslint'' @ dq @ '': '' @ dq @ ''^9.0.0'' @ dq @ '','',
     ''    '' @ dq @ ''drizzle-orm'' @ dq @ '': '' @ dq @ ''^0.44.0'' @ dq,
     ''  }'',
     ''}'']"

definition misplaced_package :: json where
  "misplaced_package =
     JObj
       [(''scripts'', JObj [(''dev'', JStr ''node --watch src/index.js'')]),
        (''repository'', JObj [(''type'', JStr ''git''), (''url'', JStr [])]),
        (''bugs'', JObj [(''url'', JStr [])]),
        (''dependencies'', JObj
          [(''express'', JStr ''^5.1.0''),
           (''drizzle-kit'', JStr ''^0.31.0'')]),
        (''devDependencies'', JObj
          [(''eslint'', JStr ''^9.0.0''),
           (''drizzle-orm'', JStr ''^0.44.0'')])]"

definition env3 :: env where
  "env3 =
     env1\<lparr>readFile := (\<lambda>p. if p = ''/opt/template/templates/config/package.json''
                             then Inr misplaced_package_text else readFile env1 p),
          JSON_parse := (\<lambda>t. if t = misplaced_package_text then Inr misplaced_package
                              else JSON_parse env1 t)\<rparr>"

section \<open>Properties\<close>

subsection \<open>Case conversion\<close>

lemma of_char_toLowerCase_char:
  "(of_char (toLowerCase_char c) :: nat) =
     (if 65 \<le> (of_char c :: nat) \<and> (of_char c :: nat) \<le> 90 then of_char c + 32 else of_char c)"
  by (simp add: toLowerCase_char_def Let_def)

lemma char_eq_code: "c = d \<longleftrightarrow> (of_char c :: nat) = of_char d"
  by (simp only: of_char_eq_iff)

lemma toLowerCase_char_n: "toLowerCase_char c = CHR ''n'' \<longleftrightarrow> c = CHR ''n'' \<or> c = CHR ''N''"
  unfolding char_eq_code [of _ "CHR ''n''"] char_eq_code [of _ "CHR ''N''"] of_char_toLowerCase_char
  by auto

lemma toLowerCase_char_y: "toLowerCase_char c = CHR ''y'' \<longleftrightarrow> c = CHR ''y'' \<or> c = CHR ''Y''"
  unfolding char_eq_code [of _ "CHR ''y''"] char_eq_code [of _ "CHR ''Y''"] of_char_toLowerCase_char
  by auto

lemma toLowerCase_n: "toLowerCase s = ''n'' \<longleftrightarrow> s = ''n'' \<or> s = ''N''"
  by (cases s; cases "tl s") (auto simp: toLowerCase_def toLowerCase_char_n)

lemma toLowerCase_y: "toLowerCase s = ''y'' \<longleftrightarrow> s = ''y'' \<or> s = ''Y''"
  by (cases s; cases "tl s") (auto simp: toLowerCase_def toLowerCase_char_y)

subsection \<open>The collector\<close>

text \<open>
  What \<open>collectProjectInfo\<close> returns when a line is typed at every prompt. The line for
  the database type is read only when the database answer does not lowercase to \<open>n\<close>.
\<close>

lemma collect_returns:
  assumes "stdin w = Inr nm # Inr de # Inr au # Inr em # Inr gh # Inr dh # Inr dockerChoice
             # Inr cicdChoice # Inr databaseChoice
             # (if toLowerCase databaseChoice = ''n'' then [] else [Inr dbType])
             @ Inr redisChoice # Inr monitoringChoice # rest"
  shows "collectProjectInfo cfg0 w =
    (Return (cfg0\<lparr>name := nm,
        description := or_else de (nm @ '' - A Node.js API with DevOps practices''),
        author := au, email := em, githubUsername := gh, dockerUsername := or_else dh gh,
        config.database :=
          (if toLowerCase databaseChoice = ''n'' then config.database cfg0
           else or_else dbType ''postgresql''),
        features := (features cfg0)\<lparr>
          docker := toLowerCase dockerChoice \<noteq> ''n'',
          cicd := toLowerCase cicdChoice \<noteq> ''n'',
          features.database := toLowerCase databaseChoice \<noteq> ''n'',
          redis := toLowerCase redisChoice = ''y'',
          monitoring := toLowerCase monitoringChoice \<noteq> ''n''\<rparr>\<rparr>),
     w\<lparr>stdin := rest,
       console := console w @
         [Log ([CHR 0xF0, CHR 0x9F, CHR 0x93, CHR 0x9D] @ '' Project Information''),
          Log ''----------------------'',
          Prompt ''Project name: '',
          Prompt ''Project description (optional): '',
          Prompt ''Author name: '',
          Prompt ''Author email: '',
          Prompt ''GitHub username: '',
          Prompt ''Docker Hub username (optional): '',
          Log [],
          Log ([CHR 0xF0, CHR 0x9F, CHR 0x94, CHR 0xA7] @ '' Features Selection''),
          Log ''---------------------'',
          Prompt ''Include Docker configuration? (y/n) [y]: '',
          Prompt ''Include CI/CD workflows? (y/n) [y]: '',
          Prompt ''Include database configuration? (y/n) [y]: '']
         @ (if toLowerCase databaseChoice = ''n'' then [] else [Prompt dbTypePrompt])
         @ [Prompt ''Include Redis configuration? (y/n) [n]: '',
            Prompt ''Include monitoring setup? (y/n) [y]: '']\<rparr>)"
  using assms
  by (simp add: collectProjectInfo_def seq_def bind_def console_log_def question_def ret_def Let_def)

text \<open>
  C1. Whatever lines answer the prompts, the collector returns a configuration in which
  \<open>docker\<close>, \<open>cicd\<close>, \<open>database\<close> and \<open>monitoring\<close> are false exactly when the answer
  lowercases to \<open>n\<close> (the answer is \<open>n\<close> or \<open>N\<close>), and \<open>redis\<close> is true exactly when the
  answer lowercases to \<open>y\<close> (the answer is \<open>y\<close> or \<open>Y\<close>). An empty line therefore
  turns the first four on and \<open>redis\<close> off.
\<close>

theorem feature_flags:
  assumes "stdin w = Inr nm # Inr de # Inr au # Inr em # Inr gh # Inr dh # Inr dockerChoice
             # Inr cicdChoice # Inr databaseChoice
             # (if toLowerCase databaseChoice = ''n'' then [] else [Inr dbType])
             @ Inr redisChoice # Inr monitoringChoice # rest"
  shows "\<exists>cfg w'. collectProjectInfo cfg0 w = (Return cfg, w')
    \<and> (\<not> docker (features cfg)) = (toLowerCase dockerChoice = ''n'')
    \<and> (\<not> cicd (features cfg)) = (toLowerCase cicdChoice = ''n'')
    \<and> (\<not> features.database (features cfg)) = (toLowerCase databaseChoice = ''n'')
    \<and> (\<not> monitoring (features cfg)) = (toLowerCase monitoringChoice = ''n'')
    \<and> redis (features cfg) = (toLowerCase redisChoice = ''y'')
    \<and> (toLowerCase dockerChoice = ''n'') = (dockerChoice = ''n'' \<or> dockerChoice = ''N'')
    \<and> (toLowerCase cicdChoice = ''n'') = (cicdChoice = ''n'' \<or> cicdChoice = ''N'')
    \<and> (toLowerCase databaseChoice = ''n'') = (databaseChoice = ''n'' \<or> databaseChoice = ''N'')
    \<and> (toLowerCase monitoringChoice = ''n'') = (monitoringChoice = ''n'' \<or> monitoringChoice = ''N'')
    \<and> (toLowerCase redisChoice = ''y'') = (redisChoice = ''y'' \<or> redisChoice = ''Y'')"
  unfolding collect_returns [OF assms] toLowerCase_n toLowerCase_y
  by simp

text \<open>
  The answers \<open>N\<close>, empty, \<open>no\<close>, empty, \<open>Y\<close> to the five feature prompts: Docker off;
  CI/CD on; the database on (\<open>no\<close> is not \<open>n\<close>), so the type is asked; Redis off;
  monitoring on.
\<close>

theorem feature_flags_witness:
  "\<exists>cfg w'. collectProjectInfo projectConfig
      (world0 (map Inr [''demo'', [], ''Ann'', ''ann@example.org'', ''alice'', [],
                        ''N'', [], ''no'', ''mysql'', [], ''Y''])) = (Return cfg, w')
    \<and> \<not> docker (features cfg) \<and> cicd (features cfg) \<and> features.database (features cfg)
    \<and> monitoring (features cfg) \<and> \<not> redis (features cfg)"
  using feature_flags [of "world0 (map Inr [''demo'', [], ''Ann'', ''ann@example.org'', ''alice'', [],
                        ''N'', [], ''no'', ''mysql'', [], ''Y''])"
       "''demo''" "[]" "''Ann''" "''ann@example.org''" "''alice''" "[]" "''N''" "[]" "''no''"
       "''mysql''" "[]" "''Y''" "[]" projectConfig]
  by (simp add: world0_def toLowerCase_n toLowerCase_y)

text \<open>
  C9. The prompt for the database type is printed exactly when the database feature has
  been switched on; when the answer switches it off, the \<open>database\<close> field keeps the
  value \<open>postgresql\<close> that \<open>projectConfig\<close> starts with, whatever lines follow.
\<close>

theorem database_type_prompt:
  assumes "stdin w = Inr nm # Inr de # Inr au # Inr em # Inr gh # Inr dh # Inr dockerChoice
             # Inr cicdChoice # Inr databaseChoice
             # (if toLowerCase databaseChoice = ''n'' then [] else [Inr dbType])
             @ Inr redisChoice # Inr monitoringChoice # rest"
  shows "\<exists>cfg w' out. collectProjectInfo projectConfig w = (Return cfg, w')
    \<and> console w' = console w @ out
    \<and> (Prompt dbTypePrompt \<in> set out) = features.database (features cfg)
    \<and> features.database (features cfg) = (toLowerCase databaseChoice \<noteq> ''n'')
    \<and> config.database cfg =
         (if features.database (features cfg) then or_else dbType ''postgresql''
          else ''postgresql'')"
  unfolding collect_returns [OF assms]
  by (simp add: dbTypePrompt_def projectConfig_def)


text \<open>
  The database answer is \<open>n\<close>; the lines \<open>mysql\<close> and \<open>mongodb\<close> that follow are taken
  as the answers about Redis and monitoring, and the field stays \<open>postgresql\<close>.
\<close>

theorem database_type_prompt_witness:
  "\<exists>cfg w'. collectProjectInfo projectConfig
      (world0 (map Inr [''demo'', [], ''Ann'', ''ann@example.org'', ''alice'', [],
                        [], [], ''n'', ''mysql'', ''mongodb'', ''more''])) = (Return cfg, w')
    \<and> Prompt dbTypePrompt \<notin> set (console w')
    \<and> \<not> features.database (features cfg)
    \<and> config.database cfg = ''postgresql''
    \<and> stdin w' = [Inr ''more'']"
  using database_type_prompt [of "world0 (map Inr [''demo'', [], ''Ann'', ''ann@example.org'', ''alice'', [],
                        [], [], ''n'', ''mysql'', ''mongodb'', ''more''])"
       "''demo''" "[]" "''Ann''" "''ann@example.org''" "''alice''" "[]" "[]" "[]" "''n''"
       "[]" "''mysql''" "''mongodb''" "[Inr ''more'']"]
    collect_returns [of "world0 (map Inr [''demo'', [], ''Ann'', ''ann@example.org'', ''alice'', [],
                        [], [], ''n'', ''mysql'', ''mongodb'', ''more''])"
       "''demo''" "[]" "''Ann''" "''ann@example.org''" "''alice''" "[]" "[]" "[]" "''n''"
       "[]" "''mysql''" "''mongodb''" "[Inr ''more'']" projectConfig]
  by (simp add: world0_def toLowerCase_n)

subsection \<open>The directory skeleton\<close>

lemma mkdir_each_ok:
  "\<forall>d \<in> set ds. mkdir_error env d = None \<Longrightarrow>
   mkdir_each env ds w =
     (Return (), w\<lparr>dirs := dirs w @ ds,
                    console := console w @ map (\<lambda>d. Log (created @ d @ ''/'')) ds\<rparr>)"
proof (induction ds arbitrary: w)
  case Nil
  then show ?case by (simp add: ret_def)
next
  case (Cons d ds)
  then show ?case
    by (simp add: seq_def bind_def fs_mkdir_def console_log_def)
qed

lemma createProjectStructure_ok:
  assumes "\<forall>d \<in> set (directories cfg). mkdir_error env d = None"
  shows "createProjectStructure env cfg w =
     (Return (), w\<lparr>dirs := dirs w @ directories cfg,
        console := console w @
          [Log [], Log ([CHR 0xF0, CHR 0x9F, CHR 0x93, CHR 0x81] @ '' Creating project structure...'')]
          @ map (\<lambda>d. Log (created @ d @ ''/'')) (directories cfg)\<rparr>)"
  by (simp add: createProjectStructure_def seq_def bind_def console_log_def mkdir_each_ok [OF assms])

text \<open>
  C5. The list of directories holds the fourteen fixed ones; \<open>nginx\<close> is in it exactly
  when \<open>features.docker\<close> is set and \<open>.github/workflows\<close> exactly when \<open>features.cicd\<close>
  is set. Where no creation fails, these are the directories \<open>createProjectStructure\<close>
  creates, in this order.
\<close>

theorem directory_list:
  "set [''src'', ''src/config'', ''src/controllers'', ''src/middleware'', ''src/models'',
        ''src/routes'', ''src/services'', ''src/utils'', ''src/validations'', ''tests'',
        ''tests/unit'', ''tests/integration'', ''logs'', ''scripts''] \<subseteq> set (directories cfg)
   \<and> (''nginx'' \<in> set (directories cfg)) = docker (features cfg)
   \<and> (''.github/workflows'' \<in> set (directories cfg)) = cicd (features cfg)
   \<and> ((\<forall>d \<in> set (directories cfg). mkdir_error env d = None) \<longrightarrow>
        fst (createProjectStructure env cfg w) = Return ()
        \<and> dirs (snd (createProjectStructure env cfg w)) = dirs w @ directories cfg)"
proof -
  have "set [''src'', ''src/config'', ''src/controllers'', ''src/middleware'', ''src/models'',
        ''src/routes'', ''src/services'', ''src/utils'', ''src/validations'', ''tests'',
        ''tests/unit'', ''tests/integration'', ''logs'', ''scripts''] \<subseteq> set (directories cfg)"
    by (simp add: directories_def base_directories_def)
  moreover have "(''nginx'' \<in> set (directories cfg)) = docker (features cfg)"
    by (simp add: directories_def base_directories_def)
  moreover have "(''.github/workflows'' \<in> set (directories cfg)) = cicd (features cfg)"
    by (simp add: directories_def base_directories_def)
  moreover have "(\<forall>d \<in> set (directories cfg). mkdir_error env d = None) \<longrightarrow>
        fst (createProjectStructure env cfg w) = Return ()
        \<and> dirs (snd (createProjectStructure env cfg w)) = dirs w @ directories cfg"
    by (simp add: createProjectStructure_ok)
  ultimately show ?thesis by blast
qed

theorem directory_list_witness:
  "''nginx'' \<in> set (directories projectConfig)
   \<and> ''.github/workflows'' \<in> set (directories projectConfig)
   \<and> ''src/routes'' \<in> set (directories projectConfig)
   \<and> dirs (snd (createProjectStructure env0 projectConfig (world0 []))) =
       [''src'', ''src/config'', ''src/controllers'', ''src/middleware'', ''src/models'',
        ''src/routes'', ''src/services'', ''src/utils'', ''src/validations'', ''tests'',
        ''tests/unit'', ''tests/integration'', ''logs'', ''scripts'', ''nginx'', ''.github'',
        ''.github/workflows'']"
  using directory_list [of projectConfig env0 "world0 []"]
  by (simp add: env0_def world0_def projectConfig_def directories_def base_directories_def)

subsection \<open>Replacement\<close>

text \<open>
  With a pattern of literal characters and a replacement text that holds none of the
  \<open>$\<close> patterns, the regular-expression replacement is the literal one.
\<close>

lemma match_len_lit:
  "match_len (lit t) s = (if prefix t s then Some (length t) else None)"
proof (induction t arbitrary: s)
  case Nil
  then show ?case by (simp add: lit_def)
next
  case (Cons a t)
  then show ?case by (cases s) (auto simp: lit_def)
qed

lemma getSubstitution_plain:
  "plain repl \<Longrightarrow> getSubstitution m b a repl = repl"
  by (induction m b a repl rule: getSubstitution.induct) auto

lemma replace_loop_lit:
  "t \<noteq> [] \<Longrightarrow> plain r \<Longrightarrow> replace_loop (lit t) r pre s = replace_all t r s"
proof (induction t r s arbitrary: pre rule: replace_all.induct)
  case (1 t r)
  then show ?case by (simp add: match_len_lit)
next
  case (2 t r c cs)
  show ?case
  proof (cases "prefix t (c # cs)")
    case True
    obtain n where n: "length t = Suc n" using "2.prems"(1) by (cases t) auto
    show ?thesis
      using True n 2 by (simp add: match_len_lit getSubstitution_plain)
  next
    case False
    then show ?thesis using 2 by (simp add: match_len_lit)
  qed
qed

lemma replace_g_lit:
  "t \<noteq> [] \<Longrightarrow> plain r \<Longrightarrow> replace_g (lit t) r s = replace_all t r s"
  by (simp add: replace_g_def replace_loop_lit)

text \<open>
  A token cannot come to stand across a value that does not complete it: an occurrence
  in \<open>x @ v @ y\<close> lies in \<open>x\<close> or in \<open>y\<close>.
\<close>

lemma completes_iff:
  "completes v t \<longleftrightarrow>
     sublist t v
     \<or> (\<exists>p. p \<noteq> [] \<and> prefix p v \<and> strict_suffix p t)
     \<or> (\<exists>q. q \<noteq> [] \<and> suffix q v \<and> strict_prefix q t)
     \<or> (\<exists>x y. x \<noteq> [] \<and> y \<noteq> [] \<and> t = x @ v @ y)"
  unfolding completes_def in_set_prefixes in_set_suffixes
  by (auto simp: suffix_def prefix_def) 

lemma sublist_mid:
  assumes "sublist t (v @ y)" "\<not> completes v t"
  shows "sublist t y"
proof -
  from assms(1) consider "sublist t v" | "sublist t y"
    | t1 t2 where "t = t1 @ t2" "suffix t1 v" "prefix t2 y"
    unfolding sublist_append by blast
  then show ?thesis
  proof cases
    case 1
    then show ?thesis using assms(2) by (simp add: completes_iff)
  next
    case 2
    then show ?thesis .
  next
    case 3
    show ?thesis
    proof (cases "t1 = []")
      case True
      then show ?thesis using 3 by (simp add: prefix_imp_sublist)
    next
      case False
      show ?thesis
      proof (cases "t2 = []")
        case True
        then have "sublist t v" using 3 by (simp add: suffix_imp_sublist)
        then show ?thesis using assms(2) by (simp add: completes_iff)
      next
        case t2: False
        have "strict_prefix t1 t" using 3(1) t2 by (simp add: strict_prefix_def)
        then show ?thesis using assms(2) False 3(2) unfolding completes_iff by blast
      qed
    qed
  qed
qed

lemma sublist_across_insert:
  assumes "sublist t (x @ v @ y)" "\<not> completes v t"
  shows "sublist t x \<or> sublist t y"
proof -
  from assms(1) consider "sublist t x" | "sublist t (v @ y)"
    | t1 t2 where "t = t1 @ t2" "suffix t1 x" "prefix t2 (v @ y)" "t1 \<noteq> []" "t2 \<noteq> []"
    unfolding sublist_append [of t x]
    by (metis append_Nil append_Nil2 prefix_imp_sublist suffix_imp_sublist)
  then show ?thesis
  proof cases
    case 1
    then show ?thesis by simp
  next
    case 2
    then show ?thesis using assms(2) sublist_mid by blast
  next
    case 3
    from 3(3) consider "prefix t2 v" | t3 where "t2 = v @ t3" "t3 \<noteq> []"
      unfolding prefix_append by (metis append_Nil2 prefix_order.order_refl)
    then show ?thesis
    proof cases
      case 1
      have "strict_suffix t2 t" using 3(1,4) by (simp add: strict_suffix_def suffix_def)
      then show ?thesis using assms(2) 1 3(5) unfolding completes_iff by blast
    next
      case 2
      then have "t = t1 @ v @ t3" using 3(1) by simp
      then show ?thesis using assms(2) 2(2) 3(4) unfolding completes_iff by blast
    qed
  qed
qed

lemma replace_all_keeps_clear:
  "\<not> completes v u \<Longrightarrow> \<not> sublist u (pre @ s) \<Longrightarrow> \<not> sublist u (pre @ replace_all t v s)"
proof (induction t v s arbitrary: pre rule: replace_all.induct)
  case (1 t r)
  then show ?case by simp
next
  case (2 t r c cs)
  show ?case
  proof (cases "t \<noteq> [] \<and> prefix t (c # cs)")
    case True
    have "\<not> sublist u pre" using "2.prems"(2) by (simp add: sublist_append)
    moreover have "\<not> sublist u (drop (length t - 1) cs)"
      using "2.prems"(2) by (metis sublist_append sublist_Cons_right sublist_drop sublist_order.order_trans)
    ultimately have "\<not> sublist u (pre @ r @ drop (length t - 1) cs)"
      using sublist_across_insert "2.prems"(1) by blast
    then have "\<not> sublist u ((pre @ r) @ replace_all t r (drop (length t - 1) cs))"
      using "2.IH"(1) [OF True "2.prems"(1), of "pre @ r"] by simp
    then show ?thesis using True by simp
  next
    case False
    have "\<not> sublist u ((pre @ [c]) @ cs)" using "2.prems"(2) by simp
    then have "\<not> sublist u ((pre @ [c]) @ replace_all t r cs)"
      using "2.IH"(2) [OF False "2.prems"(1)] by blast
    then show ?thesis using False by auto
  qed
qed


lemma short_no_sublist: "t \<noteq> [] \<Longrightarrow> \<not> sublist t (take (length t - 1) s)"
proof
  assume t: "t \<noteq> []" and "sublist t (take (length t - 1) s)"
  then have "length t \<le> length (take (length t - 1) s)" by (auto dest: sublist_length_le)
  then show False using t by (cases t) auto
qed

lemma sublist_same_length:
  assumes "sublist xs ys" "length ys \<le> length xs"
  shows "xs = ys"
proof -
  from assms(1) obtain ps ss where e: "ys = ps @ xs @ ss" unfolding sublist_def by blast
  then have "length ps + length ss = 0" using assms(2) by simp
  then show ?thesis using e by simp
qed

lemma sublist_take_prefix:
  assumes "sublist t (take (length t) s)"
  shows "prefix t s"
proof -
  have "take (length t) s = t"
    using sublist_same_length [OF assms] by simp
  moreover have "prefix (take (length t) s) s" by (rule take_is_prefix)
  ultimately show ?thesis by simp
qed

lemma prefix_take_le: "prefix p xs \<Longrightarrow> length p \<le> k \<Longrightarrow> prefix p (take k xs)"
  by (auto simp: prefix_def)

lemma sublist_snoc_take:
  assumes "\<not> sublist t (pre @ take (length t - 1) (c # cs))" "\<not> prefix t (c # cs)"
  shows "\<not> sublist t ((pre @ [c]) @ take (length t - 1) cs)"
proof
  assume a: "sublist t ((pre @ [c]) @ take (length t - 1) cs)"
  have t: "t \<noteq> []" using assms(1) by auto
  then have e: "(pre @ [c]) @ take (length t - 1) cs = pre @ take (length t) (c # cs)"
    by (cases t) auto
  from a consider "sublist t pre" | "sublist t (take (length t) (c # cs))"
    | t1 t2 where "t = t1 @ t2" "suffix t1 pre" "prefix t2 (take (length t) (c # cs))"
    unfolding e sublist_append by blast
  then show False
  proof cases
    case 1
    then show False using assms(1) by (simp add: sublist_append)
  next
    case 2
    then have "prefix t (c # cs)" by (rule sublist_take_prefix)
    then show False using assms(2) by simp
  next
    case 3
    show False
    proof (cases "t1 = []")
      case True
      then have "prefix t (take (length t) (c # cs))" using 3 by simp
      then have "prefix t (c # cs)" using take_is_prefix prefix_order.order_trans by blast
      then show False using assms(2) by simp
    next
      case False
      then have "length t2 \<le> length t - 1" using 3(1) by (cases t1) auto
      moreover have "prefix t2 (c # cs)"
        using 3(3) take_is_prefix prefix_order.order_trans by blast
      ultimately have "prefix t2 (take (length t - 1) (c # cs))" by (simp add: prefix_take_le)
      then have "sublist t (pre @ take (length t - 1) (c # cs))"
        unfolding sublist_append using 3(1,2) by blast
      then show False using assms(1) by simp
    qed
  qed
qed

lemma replace_all_clear_pre:
  "\<not> completes v t \<Longrightarrow> \<not> sublist t (pre @ take (length t - 1) s)
     \<Longrightarrow> \<not> sublist t (pre @ replace_all t v s)"
proof (induction t v s arbitrary: pre rule: replace_all.induct)
  case (1 t r)
  then show ?case by simp
next
  case (2 t r c cs)
  show ?case
  proof (cases "t \<noteq> [] \<and> prefix t (c # cs)")
    case True
    have e: "replace_all t r (c # cs) = r @ replace_all t r (drop (length t - 1) cs)"
      using True by simp
    have "\<not> sublist t pre" using "2.prems"(2) unfolding sublist_append by blast
    moreover have "\<not> sublist t (take (length t - 1) (drop (length t - 1) cs))"
      by (rule short_no_sublist) (use True in blast)
    ultimately have "\<not> sublist t (pre @ r @ take (length t - 1) (drop (length t - 1) cs))"
      using sublist_across_insert "2.prems"(1) by blast
    then have "\<not> sublist t ((pre @ r) @ take (length t - 1) (drop (length t - 1) cs))"
      unfolding append_assoc .
    then have "\<not> sublist t ((pre @ r) @ replace_all t r (drop (length t - 1) cs))"
      by (rule "2.IH"(1) [OF True "2.prems"(1)])
    then show ?thesis unfolding e append_assoc .
  next
    case False
    then have e: "replace_all t r (c # cs) = c # replace_all t r cs"
      by auto
    have t: "t \<noteq> []" using "2.prems"(2) by auto
    then have "\<not> prefix t (c # cs)" using False by blast
    with "2.prems"(2) have "\<not> sublist t ((pre @ [c]) @ take (length t - 1) cs)"
      by (rule sublist_snoc_take)
    then have "\<not> sublist t ((pre @ [c]) @ replace_all t r cs)"
      by (rule "2.IH"(2) [OF False "2.prems"(1)])
    then show ?thesis unfolding e by simp
  qed
qed

lemma replace_all_clear:
  assumes "\<not> completes v t"
  shows "\<not> sublist t (replace_all t v s)"
proof (cases "t = []")
  case True
  then show ?thesis using assms by (simp add: completes_iff)
next
  case False
  then have "\<not> sublist t ([] @ take (length t - 1) s)"
    by (simp only: append_Nil short_no_sublist not_False_eq_True)
  then have "\<not> sublist t ([] @ replace_all t v s)"
    by (rule replace_all_clear_pre [OF assms])
  then show ?thesis by simp
qed

text \<open>
  Where a token has no proper beginning that is also an ending of it, its occurrences
  cannot overlap, and the replacement acts on a text \<open>x @ t @ y\<close> with short \<open>x\<close> and
  \<open>y\<close> as one expects.
\<close>

lemma replace_all_none: "\<not> sublist t s \<Longrightarrow> replace_all t v s = s"
proof (induction t v s rule: replace_all.induct)
  case (1 t r)
  then show ?case by simp
next
  case (2 t r c cs)
  then have "\<not> prefix t (c # cs)" "\<not> sublist t cs"
    by (auto simp: sublist_Cons_right)
  then show ?case using 2 by simp
qed

lemma replace_all_here:
  assumes "t \<noteq> []"
  shows "replace_all t v (t @ z) = v @ replace_all t v z"
proof -
  obtain c t' where t: "t = c # t'" using assms by (cases t) auto
  show ?thesis unfolding t by simp
qed

lemma no_match_before:
  assumes unb: "\<forall>b \<in> set (prefixes t). b \<noteq> [] \<and> b \<noteq> t \<longrightarrow> \<not> suffix b t"
    and u: "u \<noteq> []" "length u < length t"
  shows "\<not> prefix t (u @ t @ z)"
proof
  assume p: "prefix t (u @ t @ z)"
  have "prefix u (u @ t @ z)" by simp
  then have "prefix u t" using p u(2) by (intro prefix_length_prefix [of u _ t]) simp_all
  then obtain w where w: "t = u @ w" by (auto simp: prefix_def)
  have "prefix (u @ w) (u @ t @ z)" using p w by simp
  then have "prefix w (t @ z)" by simp
  moreover have "prefix t (t @ z)" by simp
  moreover have "length w \<le> length t" using arg_cong [OF w, of length] by simp
  ultimately have "prefix w t" by (rule prefix_length_prefix)
  moreover have "w \<noteq> []" using arg_cong [OF w, of length] u(2) by auto
  moreover have "w \<noteq> t" using arg_cong [OF w, of length] u(1) by auto
  moreover have "suffix w t" using w by (metis suffixI)
  ultimately show False using unb by (auto simp: in_set_prefixes)
qed

lemma replace_all_skip:
  assumes unb: "\<forall>b \<in> set (prefixes t). b \<noteq> [] \<and> b \<noteq> t \<longrightarrow> \<not> suffix b t"
  shows "length x < length t \<Longrightarrow> replace_all t v (x @ t @ z) = x @ v @ replace_all t v z"
proof (induction x)
  case Nil
  then have "t \<noteq> []" by auto
  then show ?case by (simp add: replace_all_here)
next
  case (Cons a x)
  have "\<not> prefix t ((a # x) @ t @ z)"
    using unb _ Cons.prems by (rule no_match_before) simp
  then have "replace_all t v ((a # x) @ t @ z) = a # replace_all t v (x @ t @ z)"
    by simp
  then show ?case using Cons by simp
qed

lemma replace_all_between:
  assumes unb: "\<forall>b \<in> set (prefixes t). b \<noteq> [] \<and> b \<noteq> t \<longrightarrow> \<not> suffix b t"
    and "length x < length t" "length y < length t"
  shows "replace_all t v (x @ t @ y) = x @ v @ y"
proof -
  have "\<not> sublist t y" using assms(3) by (auto dest: sublist_length_le)
  then show ?thesis using replace_all_skip [OF unb assms(2)] by (simp add: replace_all_none)
qed

lemma completes_template:
  assumes "completes v t" "t \<noteq> []"
  shows "\<exists>x y. strict_prefix x t \<and> strict_suffix y t \<and> sublist t (x @ v @ y)"
proof -
  from assms(1) consider "sublist t v"
    | p where "p \<noteq> []" "prefix p v" "strict_suffix p t"
    | q where "q \<noteq> []" "suffix q v" "strict_prefix q t"
    | x y where "x \<noteq> []" "y \<noteq> []" "t = x @ v @ y"
    unfolding completes_iff by blast
  then show ?thesis
  proof cases
    case 1
    then have "strict_prefix [] t \<and> strict_suffix [] t \<and> sublist t ([] @ v @ [])"
      using assms(2) by (simp add: strict_suffix_def strict_prefix_def)
    then show ?thesis by blast
  next
    case 2
    from 2(3) obtain a where a: "t = a @ p" by (auto simp: strict_suffix_def suffix_def)
    from 2(2) obtain v' where v': "v = p @ v'" by (auto simp: prefix_def)
    have "strict_prefix a t" using a 2(1) by (simp add: strict_prefix_def)
    moreover have "strict_suffix [] t" using assms(2) by (simp add: strict_suffix_def)
    moreover have "sublist t (a @ v @ [])" unfolding v' a by (simp add: sublist_def) (metis append_Nil)
    ultimately show ?thesis by blast
  next
    case 3
    from 3(3) obtain b where b: "t = q @ b" by (auto simp: strict_prefix_def prefix_def)
    from 3(2) obtain v' where v': "v = v' @ q" by (auto simp: suffix_def)
    have "strict_suffix b t" using b 3(1) by (simp add: strict_suffix_def suffix_def)
    moreover have "strict_prefix [] t" using assms(2) by (simp add: strict_prefix_def)
    moreover have "sublist t ([] @ v @ b)" unfolding v' b by (simp add: sublist_def) (metis append_Nil2)
    ultimately show ?thesis by blast
  next
    case 4
    have "strict_prefix x t" using 4 by (simp add: strict_prefix_def)
    moreover have "strict_suffix y t" using 4 by (simp add: strict_suffix_def suffix_def) 
    moreover have "sublist t (x @ v @ y)" using 4(3) by simp
    ultimately show ?thesis by blast
  qed
qed

text \<open>An occurrence of a token that the replaced token cannot complete stays where it is.\<close>

lemma no_match_inside:
  assumes c: "\<not> completes t2 t1" and ne: "t1 \<noteq> t2" "t2 \<noteq> []"
    and u: "suffix u t1" "u \<noteq> []"
  shows "\<not> prefix t2 (u @ z)"
proof
  assume p: "prefix t2 (u @ z)"
  have "prefix u (u @ z)" by simp
  with p consider "prefix u t2" | "prefix t2 u"
    using prefix_same_cases by blast
  then show False
  proof cases
    case 1
    show False
    proof (cases "u = t1")
      case True
      then have "sublist t1 t2" using 1 by (simp add: prefix_imp_sublist)
      then show False using c by (simp add: completes_iff)
    next
      case False
      then have "strict_suffix u t1" using u(1) by (simp add: strict_suffix_def)
      then show False using c 1 u(2) unfolding completes_iff by blast
    qed
  next
    case 2
    then obtain w where w: "u = t2 @ w" by (auto simp: prefix_def)
    from u(1) obtain a where a: "t1 = a @ u" by (auto simp: suffix_def)
    have t: "t1 = a @ t2 @ w" using a w by simp
    show False
    proof (cases "a = []")
      case True
      then have "prefix t2 t1" using t by simp
      then have "strict_prefix t2 t1" using ne(1) by (simp add: strict_prefix_def)
      moreover have "suffix t2 t2" by simp
      ultimately show False using c ne(2) unfolding completes_iff by blast
    next
      case False
      show False
      proof (cases "w = []")
        case True
        then have "suffix t2 t1" using t by (simp add: suffix_def)
        then have "strict_suffix t2 t1" using ne(1) by (simp add: strict_suffix_def)
        moreover have "prefix t2 t2" by simp
        ultimately show False using c ne(2) unfolding completes_iff by blast
      next
        case w: False
        then show False using c t False unfolding completes_iff by blast
      qed
    qed
  qed
qed

lemma prefix_survives:
  assumes c: "\<not> completes t2 t1" and ne: "t1 \<noteq> t2"
  shows "suffix u t1 \<Longrightarrow> prefix u s \<Longrightarrow> prefix u (replace_all t2 v s)"
proof (induction u arbitrary: s)
  case Nil
  then show ?case by simp
next
  case (Cons a u)
  from Cons.prems(2) obtain z where s: "s = a # u @ z" by (auto simp: prefix_def)
  have "t2 = [] \<or> \<not> prefix t2 ((a # u) @ z)"
    using no_match_inside [OF c ne _ Cons.prems(1)] by blast
  then have e: "replace_all t2 v s = a # replace_all t2 v (u @ z)"
    unfolding s by auto
  have "suffix u t1" using Cons.prems(1) by (rule suffix_ConsD)
  then have "prefix u (replace_all t2 v (u @ z))" by (rule Cons.IH) simp
  then show ?case unfolding e by simp
qed

lemma sublist_survives:
  "\<not> completes t2 t1 \<Longrightarrow> t1 \<noteq> t2 \<Longrightarrow> sublist t1 s \<Longrightarrow> sublist t1 (replace_all t2 v s)"
proof (induction t2 v s rule: replace_all.induct)
  case (1 t r)
  then show ?case by simp
next
  case (2 t r c cs)
  show ?case
  proof (cases "t \<noteq> [] \<and> prefix t (c # cs)")
    case True
    then obtain s' where s': "c # cs = t @ s'" by (auto simp: prefix_def)
    have d: "drop (length t - 1) cs = s'"
      using True arg_cong [OF s', of "drop (length t)"] by (cases t) auto
    have "sublist t1 (t @ s')" using "2.prems"(3) s' by simp
    then have "sublist t1 s'" using "2.prems"(1) by (rule sublist_mid)
    then have "sublist t1 (replace_all t r s')"
      using "2.IH"(1) [OF True] "2.prems"(1,2) d by simp
    then show ?thesis using True d by (simp add: sublist_append)
  next
    case False
    from "2.prems"(3) consider "prefix t1 (c # cs)" | "sublist t1 cs"
      by (auto simp: sublist_Cons_right)
    then show ?thesis
    proof cases
      case 1
      have "prefix t1 (replace_all t r (c # cs))"
        using "2.prems"(1,2) _ 1 by (rule prefix_survives) simp
      then show ?thesis by (rule prefix_imp_sublist)
    next
      case 2
      then have "sublist t1 (replace_all t r cs)"
        using "2.IH"(2) [OF False] "2.prems"(1,2) by simp
      then show ?thesis using False by (auto simp: sublist_Cons_right)
    qed
  qed
qed

text \<open>
  The two placeholder tokens of the environment file, and the values for which no
  template leaves a token behind.
\<close>

lemma app_name_unbordered:
  "\<forall>b \<in> set (prefixes ''your-app-name''). b \<noteq> [] \<and> b \<noteq> ''your-app-name''
     \<longrightarrow> \<not> suffix b ''your-app-name''"
  by code_simp

lemma docker_username_unbordered:
  "\<forall>b \<in> set (prefixes ''your-docker-username''). b \<noteq> [] \<and> b \<noteq> ''your-docker-username''
     \<longrightarrow> \<not> suffix b ''your-docker-username''"
  by code_simp

lemma tokens_apart: "\<not> completes ''your-docker-username'' ''your-app-name''"
  by code_simp

lemma strict_prefix_shorter: "strict_prefix x t \<Longrightarrow> length x < length t"
  by (auto simp: strict_prefix_def prefix_def)

lemma strict_suffix_shorter: "strict_suffix y t \<Longrightarrow> length y < length t"
  by (auto simp: strict_suffix_def suffix_def)

lemma first_token_returns:
  assumes unb: "\<forall>b \<in> set (prefixes t1). b \<noteq> [] \<and> b \<noteq> t1 \<longrightarrow> \<not> suffix b t1"
    and apart: "\<not> completes t2 t1" "t1 \<noteq> t2"
    and c: "completes v1 t1"
  shows "\<exists>s. sublist t1 (replace_all t2 v2 (replace_all t1 v1 s))"
proof -
  have "t1 \<noteq> []" using apart(1) by (auto simp: completes_iff)
  with c obtain x y where
    xy: "strict_prefix x t1" "strict_suffix y t1" "sublist t1 (x @ v1 @ y)"
    using completes_template by blast
  have "replace_all t1 v1 (x @ t1 @ y) = x @ v1 @ y"
    using unb xy(1,2) by (intro replace_all_between strict_prefix_shorter strict_suffix_shorter)
  then have "sublist t1 (replace_all t1 v1 (x @ t1 @ y))" using xy(3) by simp
  then have "sublist t1 (replace_all t2 v2 (replace_all t1 v1 (x @ t1 @ y)))"
    by (rule sublist_survives [OF apart])
  then show ?thesis by blast
qed

lemma second_token_returns:
  assumes unb: "\<forall>b \<in> set (prefixes t2). b \<noteq> [] \<and> b \<noteq> t2 \<longrightarrow> \<not> suffix b t2"
    and other: "\<not> set t1 \<subseteq> set t2" "t2 \<noteq> []"
    and c: "completes v2 t2"
  shows "\<exists>s. sublist t2 (replace_all t2 v2 (replace_all t1 v1 s))"
proof -
  from c other(2) obtain x y where
    xy: "strict_prefix x t2" "strict_suffix y t2" "sublist t2 (x @ v2 @ y)"
    using completes_template by blast
  have "set x \<subseteq> set t2" using xy(1) by (intro set_mono_prefix) (simp add: strict_prefix_def)
  moreover have "set y \<subseteq> set t2" using xy(2) by (intro set_mono_suffix) (simp add: strict_suffix_def)
  ultimately have "set (x @ t2 @ y) \<subseteq> set t2" by simp
  then have "\<not> sublist t1 (x @ t2 @ y)"
    using other(1) set_mono_sublist by blast
  then have "replace_all t1 v1 (x @ t2 @ y) = x @ t2 @ y" by (rule replace_all_none)
  moreover have "replace_all t2 v2 (x @ t2 @ y) = x @ v2 @ y"
    using unb xy(1,2) by (intro replace_all_between strict_prefix_shorter strict_suffix_shorter)
  ultimately have "sublist t2 (replace_all t2 v2 (replace_all t1 v1 (x @ t2 @ y)))"
    using xy(3) by simp
  then show ?thesis by blast
qed

lemma first_token_formed:
  assumes unb: "\<forall>b \<in> set (prefixes t2). b \<noteq> [] \<and> b \<noteq> t2 \<longrightarrow> \<not> suffix b t2"
    and apart: "\<not> completes t2 t1" "length t1 \<le> length t2"
    and c: "completes v2 t1"
  shows "\<exists>s. sublist t1 (replace_all t2 v2 (replace_all t1 v1 s))"
proof -
  have "t1 \<noteq> []" using apart(1) by (auto simp: completes_iff)
  with c obtain x y where
    xy: "strict_prefix x t1" "strict_suffix y t1" "sublist t1 (x @ v2 @ y)"
    using completes_template by blast
  have l: "length x < length t1" "length y < length t1"
    using xy(1,2) by (simp_all add: strict_prefix_shorter strict_suffix_shorter)
  have "\<not> sublist t1 x" "\<not> sublist t1 y" using l by (auto dest: sublist_length_le)
  then have "\<not> sublist t1 (x @ t2 @ y)"
    using apart(1) sublist_across_insert by blast
  then have "replace_all t1 v1 (x @ t2 @ y) = x @ t2 @ y" by (rule replace_all_none)
  moreover have "replace_all t2 v2 (x @ t2 @ y) = x @ v2 @ y"
    using unb l apart(2) by (intro replace_all_between) simp_all
  ultimately have "sublist t1 (replace_all t2 v2 (replace_all t1 v1 (x @ t2 @ y)))"
    using xy(3) by simp
  then show ?thesis by blast
qed

lemma tokens_cleared_iff:
  "(\<forall>s. \<not> sublist ''your-app-name''
            (replace_all ''your-docker-username'' v2 (replace_all ''your-app-name'' v1 s))
        \<and> \<not> sublist ''your-docker-username''
            (replace_all ''your-docker-username'' v2 (replace_all ''your-app-name'' v1 s)))
   \<longleftrightarrow> \<not> completes v1 ''your-app-name'' \<and> \<not> completes v2 ''your-app-name''
        \<and> \<not> completes v2 ''your-docker-username''"
  (is "?L \<longleftrightarrow> ?R")
proof
  assume l: ?L
  have "\<not> completes v1 ''your-app-name''"
    using first_token_returns [OF app_name_unbordered tokens_apart, of v1 v2] l by blast
  moreover have "\<not> completes v2 ''your-app-name''"
    using first_token_formed [OF docker_username_unbordered tokens_apart, of v2 v1] l by auto
  moreover have "\<not> completes v2 ''your-docker-username''"
    using second_token_returns [OF docker_username_unbordered, of "''your-app-name''" v2 v1] l
    by auto
  ultimately show ?R by blast
next
  assume r: ?R
  show ?L
  proof (intro allI conjI)
    fix s
    have "\<not> sublist ''your-app-name'' ([] @ replace_all ''your-app-name'' v1 s)"
      using r by (simp add: replace_all_clear)
    then have "\<not> sublist ''your-app-name''
        ([] @ replace_all ''your-docker-username'' v2 (replace_all ''your-app-name'' v1 s))"
      using r by (intro replace_all_keeps_clear [of v2 "''your-app-name''" "[]"]) blast+
    then show "\<not> sublist ''your-app-name''
        (replace_all ''your-docker-username'' v2 (replace_all ''your-app-name'' v1 s))"
      by simp
    show "\<not> sublist ''your-docker-username''
        (replace_all ''your-docker-username'' v2 (replace_all ''your-app-name'' v1 s))"
      using r by (intro replace_all_clear) blast
  qed
qed

subsection \<open>The environment files\<close>

lemma processEnvFiles_Return:
  assumes "processEnvFiles env cfg w = (Return (), w')"
  shows "\<exists>envTemplate.
     readFile env (path_join [templateDir env, ''config'', ''.env.example'']) = Inr envTemplate
     \<and> files w' = files w @ [(''.env.example'', Text (env_content cfg envTemplate)),
                              (''.env'', Text (env_content cfg envTemplate))]"
  using assms
  by (auto simp: processEnvFiles_def bind_def seq_def fs_readFile_def lift_def fs_writeFile_def
        console_log_def throw_def ret_def split: sum.splits option.splits)

lemma env_content_plain:
  assumes "plain (name cfg)" "plain (dockerUsername cfg)"
  shows "env_content cfg t =
     replace_all ''your-docker-username'' (dockerUsername cfg)
       (replace_all ''your-app-name'' (name cfg) t)"
  using assms by (simp add: env_content_def replace_g_lit)

lemma run_eq: "fst p = r \<Longrightarrow> p = (r, snd p)"
  by (cases p) simp

text \<open>
  C6, as amended. Whenever \<open>processEnvFiles\<close> returns, \<open>.env.example\<close> and \<open>.env\<close>
  have been written with one and the same content. If neither the project name nor the
  Docker user name holds one of the patterns \<open>$$\<close>, \<open>$&\<close>, \<open>$`\<close>, \<open>$'\<close>, that content is
  the template with every occurrence of \<open>your-app-name\<close> replaced by the name and then
  every occurrence of \<open>your-docker-username\<close> replaced by the Docker user name; and no
  template leaves a token in the content exactly when the name does not complete
  \<open>your-app-name\<close> and the Docker user name completes neither token.
\<close>

theorem env_files:
  assumes "processEnvFiles env cfg w = (Return (), w')"
  shows "(\<exists>envTemplate.
       readFile env (path_join [templateDir env, ''config'', ''.env.example'']) = Inr envTemplate
       \<and> files w' = files w @ [(''.env.example'', Text (env_content cfg envTemplate)),
                                (''.env'', Text (env_content cfg envTemplate))])
     \<and> (plain (name cfg) \<and> plain (dockerUsername cfg) \<longrightarrow>
          (\<forall>t. env_content cfg t =
                 replace_all ''your-docker-username'' (dockerUsername cfg)
                   (replace_all ''your-app-name'' (name cfg) t))
          \<and> ((\<forall>t. \<not> includes_str (env_content cfg t) ''your-app-name''
                   \<and> \<not> includes_str (env_content cfg t) ''your-docker-username'')
               \<longleftrightarrow> \<not> completes (name cfg) ''your-app-name''
                    \<and> \<not> completes (dockerUsername cfg) ''your-app-name''
                    \<and> \<not> completes (dockerUsername cfg) ''your-docker-username''))"
proof (intro conjI impI)
  show "\<exists>envTemplate.
       readFile env (path_join [templateDir env, ''config'', ''.env.example'']) = Inr envTemplate
       \<and> files w' = files w @ [(''.env.example'', Text (env_content cfg envTemplate)),
                                (''.env'', Text (env_content cfg envTemplate))]"
    using assms by (rule processEnvFiles_Return)
next
  assume p: "plain (name cfg) \<and> plain (dockerUsername cfg)"
  then show "\<forall>t. env_content cfg t =
                 replace_all ''your-docker-username'' (dockerUsername cfg)
                   (replace_all ''your-app-name'' (name cfg) t)"
    by (simp add: env_content_plain)
next
  assume p: "plain (name cfg) \<and> plain (dockerUsername cfg)"
  then have e: "env_content cfg t =
                 replace_all ''your-docker-username'' (dockerUsername cfg)
                   (replace_all ''your-app-name'' (name cfg) t)" for t
    by (simp add: env_content_plain)
  show "(\<forall>t. \<not> includes_str (env_content cfg t) ''your-app-name''
                   \<and> \<not> includes_str (env_content cfg t) ''your-docker-username'')
               \<longleftrightarrow> \<not> completes (name cfg) ''your-app-name''
                    \<and> \<not> completes (dockerUsername cfg) ''your-app-name''
                    \<and> \<not> completes (dockerUsername cfg) ''your-docker-username''"
    unfolding includes_str_def e by (rule tokens_cleared_iff)
qed

text \<open>
  The name \<open>demo\<close> and the Docker user \<open>alice\<close> of the specification's scenario, on the
  example template and on every other.
\<close>

theorem env_files_witness:
  "fst (processEnvFiles env1 demo (world0 [])) = Return ()
   \<and> plain (name demo) \<and> plain (dockerUsername demo)
   \<and> \<not> completes (name demo) ''your-app-name''
   \<and> \<not> completes (dockerUsername demo) ''your-app-name''
   \<and> \<not> completes (dockerUsername demo) ''your-docker-username''
   \<and> files (snd (processEnvFiles env1 demo (world0 []))) =
       [(''.env.example'', Text (lines [''APP_NAME=demo'', ''DOCKER_IMAGE=alice/demo'', ''PORT=3000''])),
        (''.env'', Text (lines [''APP_NAME=demo'', ''DOCKER_IMAGE=alice/demo'', ''PORT=3000'']))]
   \<and> (\<forall>t. env_content demo t =
            replace_all ''your-docker-username'' ''alice'' (replace_all ''your-app-name'' ''demo'' t))
   \<and> (\<forall>t. \<not> includes_str (env_content demo t) ''your-app-name''
          \<and> \<not> includes_str (env_content demo t) ''your-docker-username'')"
proof -
  have r: "fst (processEnvFiles env1 demo (world0 [])) = Return ()"
    by code_simp
  have p: "plain (name demo)" "plain (dockerUsername demo)"
    by code_simp+
  have c: "\<not> completes (name demo) ''your-app-name''"
    "\<not> completes (dockerUsername demo) ''your-app-name''"
    "\<not> completes (dockerUsername demo) ''your-docker-username''"
    by code_simp+
  have f: "files (snd (processEnvFiles env1 demo (world0 []))) =
       [(''.env.example'', Text (lines [''APP_NAME=demo'', ''DOCKER_IMAGE=alice/demo'', ''PORT=3000''])),
        (''.env'', Text (lines [''APP_NAME=demo'', ''DOCKER_IMAGE=alice/demo'', ''PORT=3000'']))]"
    by code_simp
  have n: "name demo = ''demo''" "dockerUsername demo = ''alice''"
    by (simp_all add: demo_def)
  from env_files [OF run_eq [OF r]] p c have
    "(\<forall>t. env_content demo t =
            replace_all ''your-docker-username'' (dockerUsername demo)
              (replace_all ''your-app-name'' (name demo) t))
     \<and> (\<forall>t. \<not> includes_str (env_content demo t) ''your-app-name''
          \<and> \<not> includes_str (env_content demo t) ''your-docker-username'')"
    by blast
  then show ?thesis using r p c f unfolding n by blast
qed

text \<open>
  C6 as stated fails: a project called \<open>your-app-name\<close> leaves the token in both files.
  (So does the name \<open>$&\<close>, which \<open>String.prototype.replace\<close> takes as an instruction
  to insert the match itself.)
\<close>

theorem env_placeholder_counterexample:
  "fst (processEnvFiles env1 (demo\<lparr>name := ''your-app-name''\<rparr>) (world0 [])) = Return ()
   \<and> files (snd (processEnvFiles env1 (demo\<lparr>name := ''your-app-name''\<rparr>) (world0 []))) =
       [(''.env.example'',
           Text (lines [''APP_NAME=your-app-name'', ''DOCKER_IMAGE=alice/your-app-name'', ''PORT=3000''])),
        (''.env'',
           Text (lines [''APP_NAME=your-app-name'', ''DOCKER_IMAGE=alice/your-app-name'', ''PORT=3000'']))]
   \<and> includes_str (lines [''APP_NAME=your-app-name'', ''DOCKER_IMAGE=alice/your-app-name'', ''PORT=3000''])
         ''your-app-name''"
  by code_simp

subsection \<open>The compose files\<close>

text \<open>
  The pattern of \<open>processDockerFiles\<close> asks for a character after the end of the input,
  so it matches nowhere, and the compose templates are written as they were read.
\<close>

lemma project_name_regex_no_match: "match_len project_name_regex s = None"
  by (cases s; cases "tl s") (auto simp: project_name_regex_def)

lemma replace_loop_no_match:
  "(\<And>x. match_len p x = None) \<Longrightarrow> replace_loop p repl pre s = s"
  by (induction s arbitrary: pre) auto

lemma compose_content_unchanged: "compose_content cfg compose = compose"
  by (simp add: compose_content_def replace_g_def replace_loop_no_match project_name_regex_no_match)

text \<open>
  C4 fails on the code. With the project name \<open>demo\<close>, the written
  \<open>docker-compose.dev.yml\<close> and \<open>docker-compose.prod.yml\<close> still carry the default
  \<open>${PROJECT_NAME:-app}\<close> of the templates; \<open>demo\<close> occurs in neither.
\<close>

theorem compose_token_kept:
  "fst (processDockerFiles env1 demo (world0 [])) = Return ()
   \<and> map_of (files (snd (processDockerFiles env1 demo (world0 [])))) ''docker-compose.dev.yml'' =
       Some (Text (lines [''services:'', ''  app:'', ''    container_name: ${PROJECT_NAME:-app}-dev'']))
   \<and> map_of (files (snd (processDockerFiles env1 demo (world0 [])))) ''docker-compose.prod.yml'' =
       Some (Text (lines [''services:'', ''  app:'', ''    container_name: ${PROJECT_NAME:-app}-prod'']))
   \<and> \<not> includes_str (lines [''services:'', ''  app:'', ''    container_name: ${PROJECT_NAME:-app}-dev''])
         ''demo''"
  by code_simp

subsection \<open>The package manifest\<close>

lemma and_then_Inr: "and_then r f = Inr y \<longleftrightarrow> (\<exists>x. r = Inr x \<and> f x = Inr y)"
  by (cases r) (auto simp: and_then_def)

lemma update_map_entry:
  "map_of kvs k = Some v \<Longrightarrow> AList.update k (f v) kvs = AList.map_entry k f kvs"
  by (induction kvs) auto

lemma map_entry_twice:
  "AList.map_entry k f (AList.map_entry k g kvs) = AList.map_entry k (\<lambda>v. f (g v)) kvs"
  by (induction kvs) auto

lemma without_keys_JObj:
  "delete_member v j = Inr v' \<Longrightarrow> v' = without_keys [j] v"
  by (cases v) (auto simp: delete_member_def without_keys_def AList.delete_eq intro: filter_cong)

lemma without_keys_append:
  "without_keys ks (without_keys js v) = without_keys (js @ ks) v"
  by (cases v) (auto simp: without_keys_def intro: filter_cong)

lemma delete_in_Inr:
  assumes "delete_in obj k j = Inr obj'"
  shows "\<exists>kvs v. obj = JObj kvs \<and> map_of kvs k = Some v \<and> v \<noteq> JNull
           \<and> obj' = JObj (AList.map_entry k (without_keys [j]) kvs)"
proof -
  from assms obtain m v' where m: "get_member obj k = Inr (Some m)" "delete_member m j = Inr v'"
    and o: "obj' = (case obj of JObj kvs \<Rightarrow> JObj (AList.update k v' kvs) | _ \<Rightarrow> obj)"
    by (auto simp: delete_in_def in_member_def and_then_Inr split: option.splits)
  from m(1) obtain kvs where kvs: "obj = JObj kvs" "map_of kvs k = Some m"
    by (cases obj) (auto simp: get_member_def)
  have "m \<noteq> JNull" using m(2) by (auto simp: delete_member_def)
  moreover have "v' = without_keys [j] m" using m(2) by (rule without_keys_JObj)
  ultimately show ?thesis using kvs o by (auto simp: update_map_entry)
qed

lemma map_of_map_entry_other:
  "k' \<noteq> k \<Longrightarrow> map_of (AList.map_entry k f kvs) k' = map_of kvs k'"
  by (simp add: map_of_map_entry)

lemma delete_database_entries_Inr:
  assumes "delete_database_entries p = Inr p'"
  shows "p' = without_database_keys p
     \<and> (\<exists>d. field p ''dependencies'' = Some d \<and> d \<noteq> JNull)
     \<and> (\<exists>d. field p ''devDependencies'' = Some d \<and> d \<noteq> JNull)
     \<and> (\<exists>d. field p ''scripts'' = Some d \<and> d \<noteq> JNull)"
proof -
  from assms obtain p7 p8 p9 p10 p11 where
    s: "delete_in p ''dependencies'' ''drizzle-orm'' = Inr p7"
       "delete_in p7 ''dependencies'' ''@neondatabase/serverless'' = Inr p8"
       "delete_in p8 ''devDependencies'' ''drizzle-kit'' = Inr p9"
       "delete_in p9 ''scripts'' ''db:generate'' = Inr p10"
       "delete_in p10 ''scripts'' ''db:migrate'' = Inr p11"
       "delete_in p11 ''scripts'' ''db:studio'' = Inr p'"
    unfolding delete_database_entries_def and_then_Inr by blast
  from delete_in_Inr [OF s(1)] obtain kvs d1 where
    1: "p = JObj kvs" "map_of kvs ''dependencies'' = Some d1" "d1 \<noteq> JNull"
       "p7 = JObj (AList.map_entry ''dependencies'' (without_keys [''drizzle-orm'']) kvs)"
    by blast
  from delete_in_Inr [OF s(2)] 1 have
    2: "p8 = JObj (AList.map_entry ''dependencies''
              (without_keys [''drizzle-orm'', ''@neondatabase/serverless'']) kvs)"
    by (auto simp: map_entry_twice without_keys_append)
  from delete_in_Inr [OF s(3)] 2 obtain d3 where
    3: "map_of kvs ''devDependencies'' = Some d3" "d3 \<noteq> JNull"
       "p9 = JObj (AList.map_entry ''devDependencies'' (without_keys [''drizzle-kit''])
               (AList.map_entry ''dependencies''
                  (without_keys [''drizzle-orm'', ''@neondatabase/serverless'']) kvs))"
    by (auto simp: map_of_map_entry)
  from delete_in_Inr [OF s(4)] 3 obtain d4 where
    4: "map_of kvs ''scripts'' = Some d4" "d4 \<noteq> JNull"
       "p10 = JObj (AList.map_entry ''scripts'' (without_keys [''db:generate''])
               (AList.map_entry ''devDependencies'' (without_keys [''drizzle-kit''])
               (AList.map_entry ''dependencies''
                  (without_keys [''drizzle-orm'', ''@neondatabase/serverless'']) kvs)))"
    by (auto simp: map_of_map_entry)
  from delete_in_Inr [OF s(5)] 4 have
    5: "p11 = JObj (AList.map_entry ''scripts'' (without_keys [''db:generate'', ''db:migrate''])
               (AList.map_entry ''devDependencies'' (without_keys [''drizzle-kit''])
               (AList.map_entry ''dependencies''
                  (without_keys [''drizzle-orm'', ''@neondatabase/serverless'']) kvs)))"
    by (auto simp: map_entry_twice without_keys_append)
  from delete_in_Inr [OF s(6)] 5 have
    6: "p' = JObj (AList.map_entry ''scripts''
                 (without_keys [''db:generate'', ''db:migrate'', ''db:studio''])
               (AList.map_entry ''devDependencies'' (without_keys [''drizzle-kit''])
               (AList.map_entry ''dependencies''
                  (without_keys [''drizzle-orm'', ''@neondatabase/serverless'']) kvs)))"
    by (auto simp: map_entry_twice without_keys_append)
  show ?thesis using 1 3 4 6 by (simp add: without_database_keys_def field_def)
qed

lemma field_without_keys:
  "field (without_keys ks v) k = (if k \<in> set ks then None else field v k)"
proof (cases v)
  case (JObj kvs)
  have "map_of (filter (\<lambda>(k, x). k \<notin> set ks) kvs) k = (if k \<in> set ks then None else map_of kvs k)"
    by (induction kvs) auto
  then show ?thesis using JObj by (simp add: without_keys_def field_def)
qed (simp_all add: without_keys_def field_def)

lemma field_without_database_keys:
  "field (without_database_keys p) k =
     (if k = ''dependencies''
      then map_option (without_keys [''drizzle-orm'', ''@neondatabase/serverless'']) (field p k)
      else if k = ''devDependencies''
      then map_option (without_keys [''drizzle-kit'']) (field p k)
      else if k = ''scripts''
      then map_option (without_keys [''db:generate'', ''db:migrate'', ''db:studio'']) (field p k)
      else field p k)"
  by (cases p) (auto simp: without_database_keys_def field_def map_of_map_entry split: option.splits)

lemma processPackageJson_Return:
  "processPackageJson env cfg w = (Return (), w') \<longleftrightarrow>
     (\<exists>text tpl pkg.
        readFile env (path_join [templateDir env, ''config'', ''package.json'']) = Inr text
        \<and> JSON_parse env text = Inr tpl
        \<and> fill_package cfg tpl = Inr pkg
        \<and> writeFile_error env ''package.json'' = None
        \<and> w' = w\<lparr>files := files w @ [(''package.json'', JsonText pkg)],
                  console := console w @ [Log (created @ ''package.json'')]\<rparr>)"
  by (auto simp: processPackageJson_def bind_def seq_def fs_readFile_def lift_def fs_writeFile_def
        console_log_def throw_def ret_def split: sum.splits option.splits)

lemma fill_package_database:
  assumes "\<not> features.database (features cfg)"
  shows "fill_package cfg tpl =
     and_then (fill_package (cfg\<lparr>features := (features cfg)\<lparr>features.database := True\<rparr>\<rparr>) tpl)
       delete_database_entries"
  using assms
  by (simp add: fill_package_def github_url_def and_then_def split: sum.splits)

text \<open>
  The members of a manifest without its database entries are the members of the manifest
  but for the six entries and what lies below them.
\<close>

lemma set_members_JObj:
  "set (members (JObj kvs)) =
     (\<Union>(k, v) \<in> set kvs. insert [Member k] ((#) (Member k) ` set (members v)))"
  by auto

lemma members_without_keys:
  "set (members (without_keys ks v)) =
     {p \<in> set (members v). \<forall>k \<in> set ks. \<not> prefix [Member k] p}"
proof (cases v)
  case (JObj kvs)
  show ?thesis unfolding JObj without_keys_def by (auto simp: set_members_JObj) blast+
next
  case (JArr xs)
  then show ?thesis by (auto simp: without_keys_def)
qed (simp_all add: without_keys_def)

lemma set_map_entry:
  "distinct (map fst kvs) \<Longrightarrow>
     set (AList.map_entry s f kvs) =
       {(k, v) \<in> set kvs. k \<noteq> s} \<union> (case map_of kvs s of None \<Rightarrow> {} | Some v \<Rightarrow> {(s, f v)})"
proof (induction kvs)
  case Nil
  then show ?case by simp
next
  case (Cons a kvs)
  then show ?case
    by (cases a) (auto simp: map_of_eq_None_iff image_iff split: option.splits)
qed

lemma members_map_entry:
  assumes "distinct (map fst kvs)"
  shows "set (members (JObj (AList.map_entry s (without_keys ks) kvs))) =
     {p \<in> set (members (JObj kvs)). \<forall>k \<in> set ks. \<not> prefix [Member s, Member k] p}"
proof (cases "map_of kvs s")
  case None
  then have "AList.map_entry s (without_keys ks) kvs = kvs"
    by (induction kvs) (auto split: if_splits)
  moreover have "\<not> prefix [Member s, Member k] p" if "p \<in> set (members (JObj kvs))" for p k
    using that None by (auto simp: set_members_JObj map_of_eq_None_iff image_iff)
  ultimately show ?thesis by (simp only:) blast
next
  case (Some v)
  then have v: "(s, v) \<in> set kvs" by (rule map_of_SomeD)
  have u: "v' = v" if "(s, v') \<in> set kvs" for v'
    using that v assms by (meson eq_key_imp_eq_value)
  have e: "set (AList.map_entry s (without_keys ks) kvs) =
      {(k, x) \<in> set kvs. k \<noteq> s} \<union> {(s, without_keys ks v)}"
    using set_map_entry [OF assms, of s "without_keys ks"] Some by simp
  show ?thesis
  proof (intro set_eqI iffI)
    fix p
    assume "p \<in> set (members (JObj (AList.map_entry s (without_keys ks) kvs)))"
    then obtain k x where kx: "(k, x) \<in> set (AList.map_entry s (without_keys ks) kvs)"
      "p = [Member k] \<or> (\<exists>q \<in> set (members x). p = Member k # q)"
      unfolding set_members_JObj by auto
    show "p \<in> {p \<in> set (members (JObj kvs)). \<forall>k \<in> set ks. \<not> prefix [Member s, Member k] p}"
    proof (cases "k = s")
      case True
      then have x: "x = without_keys ks v" using kx(1) e by auto
      from kx(2) show ?thesis
      proof
        assume "p = [Member k]"
        then show ?thesis using v True by (auto simp: set_members_JObj)
      next
        assume "\<exists>q \<in> set (members x). p = Member k # q"
        then obtain q where q: "q \<in> set (members (without_keys ks v))" "p = Member s # q"
          using x True by blast
        then have "q \<in> set (members v)" "\<forall>k \<in> set ks. \<not> prefix [Member k] q"
          by (simp_all add: members_without_keys)
        then show ?thesis using q(2) v by (auto simp: set_members_JObj)
      qed
    next
      case False
      then have "(k, x) \<in> set kvs" using kx(1) e by auto
      then have "p \<in> set (members (JObj kvs))" using kx(2) by (auto simp: set_members_JObj)
      moreover have "\<not> prefix [Member s, Member k'] p" for k'
        using kx(2) False by auto
      ultimately show ?thesis by simp
    qed
  next
    fix p
    assume "p \<in> {p \<in> set (members (JObj kvs)). \<forall>k \<in> set ks. \<not> prefix [Member s, Member k] p}"
    then have p: "p \<in> set (members (JObj kvs))" "\<forall>k \<in> set ks. \<not> prefix [Member s, Member k] p"
      by simp_all
    from p(1) obtain k x where kx: "(k, x) \<in> set kvs"
      "p = [Member k] \<or> (\<exists>q \<in> set (members x). p = Member k # q)"
      unfolding set_members_JObj by auto
    show "p \<in> set (members (JObj (AList.map_entry s (without_keys ks) kvs)))"
    proof (cases "k = s")
      case True
      then have x: "x = v" using kx(1) u by blast
      have in_e: "(s, without_keys ks v) \<in> set (AList.map_entry s (without_keys ks) kvs)"
        using e by simp
      from kx(2) show ?thesis
      proof
        assume "p = [Member k]"
        then show ?thesis using in_e True unfolding set_members_JObj by blast
      next
        assume "\<exists>q \<in> set (members x). p = Member k # q"
        then obtain q where q: "q \<in> set (members v)" "p = Member s # q"
          using x True by blast
        have "\<forall>k \<in> set ks. \<not> prefix [Member k] q" using p(2) q(2) by auto
        then have "q \<in> set (members (without_keys ks v))"
          using q(1) by (simp add: members_without_keys)
        then show ?thesis using in_e q(2) unfolding set_members_JObj by blast
      qed
    next
      case False
      then have "(k, x) \<in> set (AList.map_entry s (without_keys ks) kvs)"
        using kx(1) e by simp
      then show ?thesis using kx(2) unfolding set_members_JObj by blast
    qed
  qed
qed

lemma members_without_database_keys:
  assumes "unique_keys p"
  shows "set (members (without_database_keys p)) =
     {q \<in> set (members p). \<forall>e \<in> set deleted_entries. \<not> prefix e q}"
proof (cases p)
  case (JObj kvs)
  then have d: "distinct (map fst kvs)" using assms by (simp add: unique_keys_def)
  let ?a = "AList.map_entry ''dependencies''
              (without_keys [''drizzle-orm'', ''@neondatabase/serverless'']) kvs"
  let ?b = "AList.map_entry ''devDependencies'' (without_keys [''drizzle-kit'']) ?a"
  have da: "distinct (map fst ?a)" using d by (rule distinct_map_entry)
  then have db: "distinct (map fst ?b)" by (rule distinct_map_entry)
  show ?thesis
    unfolding JObj without_database_keys_def json.case
      members_map_entry [OF db] members_map_entry [OF da] members_map_entry [OF d]
    by (auto simp: deleted_entries_def)
next
  case (JArr xs)
  then show ?thesis by (auto simp: without_database_keys_def deleted_entries_def)
qed (simp_all add: without_database_keys_def)

lemma mentions_without_database_keys:
  assumes "unique_keys p"
  shows "(\<forall>k \<in> set database_keys. \<not> mentions (without_database_keys p) k) \<longleftrightarrow>
     (\<forall>q \<in> set (members p).
        last q \<in> Member ` set database_keys \<longrightarrow> (\<exists>e \<in> set deleted_entries. prefix e q))"
  unfolding mentions_def members_without_database_keys [OF assms] by blast

text \<open>
  C2, as amended. Where \<open>processPackageJson\<close> returns for a configuration without the
  database feature, it also returns for the same configuration with the feature, and the
  manifest written is the one written with the feature but for the six entries the
  script deletes: its \<open>dependencies\<close> have no \<open>drizzle-orm\<close> and no
  \<open>@neondatabase/serverless\<close>, its \<open>devDependencies\<close> no \<open>drizzle-kit\<close>, its \<open>scripts\<close>
  no \<open>db:generate\<close>, \<open>db:migrate\<close> or \<open>db:studio\<close>, and every other entry stands where
  it stood. Its members are those of the manifest with the feature that are neither one
  of the six entries nor below one; so it mentions none of the six keys exactly when the
  manifest with the feature bears them nowhere else.
\<close>

theorem database_entries:
  assumes "\<not> features.database (features cfg)"
    and "processPackageJson env cfg w = (Return (), w')"
  shows "\<exists>pkg_t pkg_f wt.
     processPackageJson env (cfg\<lparr>features := (features cfg)\<lparr>features.database := True\<rparr>\<rparr>) w
       = (Return (), wt)
     \<and> files wt = files w @ [(''package.json'', JsonText pkg_t)]
     \<and> files w' = files w @ [(''package.json'', JsonText pkg_f)]
     \<and> pkg_f = without_database_keys pkg_t
     \<and> (\<exists>d. field pkg_f ''dependencies'' = Some d
            \<and> \<not> has_key d ''drizzle-orm'' \<and> \<not> has_key d ''@neondatabase/serverless'')
     \<and> (\<exists>d. field pkg_f ''devDependencies'' = Some d \<and> \<not> has_key d ''drizzle-kit'')
     \<and> (\<exists>s. field pkg_f ''scripts'' = Some s
            \<and> \<not> has_key s ''db:generate'' \<and> \<not> has_key s ''db:migrate''
            \<and> \<not> has_key s ''db:studio'')
     \<and> (unique_keys pkg_t \<longrightarrow>
          set (members pkg_f) =
            {q \<in> set (members pkg_t). \<forall>e \<in> set deleted_entries. \<not> prefix e q}
          \<and> ((\<forall>k \<in> set database_keys. \<not> mentions pkg_f k) \<longleftrightarrow>
               (\<forall>q \<in> set (members pkg_t).
                  last q \<in> Member ` set database_keys \<longrightarrow>
                  (\<exists>e \<in> set deleted_entries. prefix e q))))"
proof -
  let ?cfg = "cfg\<lparr>features := (features cfg)\<lparr>features.database := True\<rparr>\<rparr>"
  from assms(2) obtain src tpl pkg_f where
    r: "readFile env (path_join [templateDir env, ''config'', ''package.json'']) = Inr src"
       "JSON_parse env src = Inr tpl" "fill_package cfg tpl = Inr pkg_f"
       "writeFile_error env ''package.json'' = None"
    and w': "w' = w\<lparr>files := files w @ [(''package.json'', JsonText pkg_f)],
                  console := console w @ [Log (created @ ''package.json'')]\<rparr>"
    unfolding processPackageJson_Return by blast
  from r(3) obtain pkg_t where
    t: "fill_package ?cfg tpl = Inr pkg_t" "delete_database_entries pkg_t = Inr pkg_f"
    unfolding fill_package_database [OF assms(1)] and_then_Inr by blast
  have run: "processPackageJson env ?cfg w =
      (Return (), w\<lparr>files := files w @ [(''package.json'', JsonText pkg_t)],
                  console := console w @ [Log (created @ ''package.json'')]\<rparr>)"
    unfolding processPackageJson_Return using r t(1) by blast
  from delete_database_entries_Inr [OF t(2)] obtain d1 d2 d3 where
    e: "pkg_f = without_database_keys pkg_t"
       "field pkg_t ''dependencies'' = Some d1"
       "field pkg_t ''devDependencies'' = Some d2"
       "field pkg_t ''scripts'' = Some d3"
    by blast
  have f: "field pkg_f ''dependencies'' =
          Some (without_keys [''drizzle-orm'', ''@neondatabase/serverless''] d1)"
       "field pkg_f ''devDependencies'' = Some (without_keys [''drizzle-kit''] d2)"
       "field pkg_f ''scripts'' =
          Some (without_keys [''db:generate'', ''db:migrate'', ''db:studio''] d3)"
    using e by (simp_all add: field_without_database_keys)
  have m: "set (members pkg_f) =
            {q \<in> set (members pkg_t). \<forall>e \<in> set deleted_entries. \<not> prefix e q}
          \<and> ((\<forall>k \<in> set database_keys. \<not> mentions pkg_f k) \<longleftrightarrow>
               (\<forall>q \<in> set (members pkg_t).
                  last q \<in> Member ` set database_keys \<longrightarrow>
                  (\<exists>e \<in> set deleted_entries. prefix e q)))"
    if "unique_keys pkg_t"
    unfolding e(1)
    using members_without_database_keys [OF that] mentions_without_database_keys [OF that]
    by blast
  have "files (w\<lparr>files := files w @ [(''package.json'', JsonText pkg_t)],
                  console := console w @ [Log (created @ ''package.json'')]\<rparr>)
          = files w @ [(''package.json'', JsonText pkg_t)]"
       "files w' = files w @ [(''package.json'', JsonText pkg_f)]"
    using w' by simp_all
  moreover have "\<exists>d. field pkg_f ''dependencies'' = Some d
            \<and> \<not> has_key d ''drizzle-orm'' \<and> \<not> has_key d ''@neondatabase/serverless''"
    "\<exists>d. field pkg_f ''devDependencies'' = Some d \<and> \<not> has_key d ''drizzle-kit''"
    "\<exists>s. field pkg_f ''scripts'' = Some s
            \<and> \<not> has_key s ''db:generate'' \<and> \<not> has_key s ''db:migrate''
            \<and> \<not> has_key s ''db:studio''"
    using f by (simp_all add: has_key_def field_without_keys)
  ultimately show ?thesis
    using run e(1) m by blast
qed

text \<open>
  The example template, for the configuration \<open>demo\<close> with and without the feature: the
  six keys stand where the script deletes them and nowhere else, and the manifest without
  the feature mentions none of them.
\<close>

theorem database_entries_witness:
  "\<not> features.database (features demo_without_database)
   \<and> fst (processPackageJson env1 demo_without_database (world0 [])) = Return ()
   \<and> manifest (snd (processPackageJson env1 demo (world0 []))) =
       Some (JObj
         [(''name'', JStr ''demo''),
          (''scripts'', JObj
             [(''dev'', JStr ''node --watch src/index.js''),
              (''db:generate'', JStr ''drizzle-kit generate''),
              (''db:migrate'', JStr ''drizzle-kit migrate''),
              (''db:studio'', JStr ''drizzle-kit studio'')]),
          (''repository'', JObj
             [(''type'', JStr ''git''), (''url'', JStr ''git+https://github.com/alice/demo.git'')]),
          (''bugs'', JObj [(''url'', JStr ''https://github.com/alice/demo/issues'')]),
          (''dependencies'', JObj
             [(''express'', JStr ''^5.1.0''),
              (''drizzle-orm'', JStr ''^0.44.0''),
              (''@neondatabase/serverless'', JStr ''^1.0.0'')]),
          (''devDependencies'', JObj
             [(''eslint'', JStr ''^9.0.0''),
              (''drizzle-kit'', JStr ''^0.31.0'')]),
          (''description'', JStr ''demo - A Node.js API with DevOps practices''),
          (''author'', JStr ''Ann <ann@example.org>''),
          (''homepage'', JStr ''https://github.com/alice/demo#readme'')])
   \<and> manifest (snd (processPackageJson env1 demo_without_database (world0 []))) =
       Some (JObj
         [(''name'', JStr ''demo''),
          (''scripts'', JObj [(''dev'', JStr ''node --watch src/index.js'')]),
          (''repository'', JObj
             [(''type'', JStr ''git''), (''url'', JStr ''git+https://github.com/alice/demo.git'')]),
          (''bugs'', JObj [(''url'', JStr ''https://github.com/alice/demo/issues'')]),
          (''dependencies'', JObj [(''express'', JStr ''^5.1.0'')]),
          (''devDependencies'', JObj [(''eslint'', JStr ''^9.0.0'')]),
          (''description'', JStr ''demo - A Node.js API with DevOps practices''),
          (''author'', JStr ''Ann <ann@example.org>''),
          (''homepage'', JStr ''https://github.com/alice/demo#readme'')])
   \<and> (\<exists>pkg_t pkg_f.
         manifest (snd (processPackageJson env1 demo (world0 []))) = Some pkg_t
         \<and> manifest (snd (processPackageJson env1 demo_without_database (world0 []))) = Some pkg_f
         \<and> pkg_f = without_database_keys pkg_t
         \<and> unique_keys pkg_t
         \<and> mentions pkg_t ''drizzle-orm''
         \<and> (\<forall>k \<in> set database_keys. \<not> mentions pkg_f k))"
proof -
  have h: "\<not> features.database (features demo_without_database)"
    by (simp add: demo_without_database_def)
  have r: "fst (processPackageJson env1 demo_without_database (world0 [])) = Return ()"
    by code_simp
  have mt: "manifest (snd (processPackageJson env1 demo (world0 []))) =
       Some (JObj
         [(''name'', JStr ''demo''),
          (''scripts'', JObj
             [(''dev'', JStr ''node --watch src/index.js''),
              (''db:generate'', JStr ''drizzle-kit generate''),
              (''db:migrate'', JStr ''drizzle-kit migrate''),
              (''db:studio'', JStr ''drizzle-kit studio'')]),
          (''repository'', JObj
             [(''type'', JStr ''git''), (''url'', JStr ''git+https://github.com/alice/demo.git'')]),
          (''bugs'', JObj [(''url'', JStr ''https://github.com/alice/demo/issues'')]),
          (''dependencies'', JObj
             [(''express'', JStr ''^5.1.0''),
              (''drizzle-orm'', JStr ''^0.44.0''),
              (''@neondatabase/serverless'', JStr ''^1.0.0'')]),
          (''devDependencies'', JObj
             [(''eslint'', JStr ''^9.0.0''),
              (''drizzle-kit'', JStr ''^0.31.0'')]),
          (''description'', JStr ''demo - A Node.js API with DevOps practices''),
          (''author'', JStr ''Ann <ann@example.org>''),
          (''homepage'', JStr ''https://github.com/alice/demo#readme'')])"
    by code_simp
  have mf: "manifest (snd (processPackageJson env1 demo_without_database (world0 []))) =
       Some (JObj
         [(''name'', JStr ''demo''),
          (''scripts'', JObj [(''dev'', JStr ''node --watch src/index.js'')]),
          (''repository'', JObj
             [(''type'', JStr ''git''), (''url'', JStr ''git+https://github.com/alice/demo.git'')]),
          (''bugs'', JObj [(''url'', JStr ''https://github.com/alice/demo/issues'')]),
          (''dependencies'', JObj [(''express'', JStr ''^5.1.0'')]),
          (''devDependencies'', JObj [(''eslint'', JStr ''^9.0.0'')]),
          (''description'', JStr ''demo - A Node.js API with DevOps practices''),
          (''author'', JStr ''Ann <ann@example.org>''),
          (''homepage'', JStr ''https://github.com/alice/demo#readme'')])"
    by code_simp
  have d: "demo_without_database\<lparr>features := (features demo_without_database)\<lparr>features.database := True\<rparr>\<rparr>
            = demo"
    by (simp add: demo_without_database_def demo_def)
  from database_entries [OF h run_eq [OF r]] obtain pkg_t pkg_f wt where
    e: "processPackageJson env1 demo (world0 []) = (Return (), wt)"
       "files wt = files (world0 []) @ [(''package.json'', JsonText pkg_t)]"
       "files (snd (processPackageJson env1 demo_without_database (world0 []))) =
          files (world0 []) @ [(''package.json'', JsonText pkg_f)]"
       "pkg_f = without_database_keys pkg_t"
       "unique_keys pkg_t \<longrightarrow>
          ((\<forall>k \<in> set database_keys. \<not> mentions pkg_f k) \<longleftrightarrow>
               (\<forall>q \<in> set (members pkg_t).
                  last q \<in> Member ` set database_keys \<longrightarrow>
                  (\<exists>e \<in> set deleted_entries. prefix e q)))"
    unfolding d by blast
  have t: "manifest (snd (processPackageJson env1 demo (world0 []))) = Some pkg_t"
    using e(1,2) by (simp add: manifest_def file_content_def world0_def)
  have f: "manifest (snd (processPackageJson env1 demo_without_database (world0 []))) = Some pkg_f"
    using e(3) by (simp add: manifest_def file_content_def world0_def)
  define p where "p = the (Some (JObj
         [(''name'', JStr ''demo''),
          (''scripts'', JObj
             [(''dev'', JStr ''node --watch src/index.js''),
              (''db:generate'', JStr ''drizzle-kit generate''),
              (''db:migrate'', JStr ''drizzle-kit migrate''),
              (''db:studio'', JStr ''drizzle-kit studio'')]),
          (''repository'', JObj
             [(''type'', JStr ''git''), (''url'', JStr ''git+https://github.com/alice/demo.git'')]),
          (''bugs'', JObj [(''url'', JStr ''https://github.com/alice/demo/issues'')]),
          (''dependencies'', JObj
             [(''express'', JStr ''^5.1.0''),
              (''drizzle-orm'', JStr ''^0.44.0''),
              (''@neondatabase/serverless'', JStr ''^1.0.0'')]),
          (''devDependencies'', JObj
             [(''eslint'', JStr ''^9.0.0''),
              (''drizzle-kit'', JStr ''^0.31.0'')]),
          (''description'', JStr ''demo - A Node.js API with DevOps practices''),
          (''author'', JStr ''Ann <ann@example.org>''),
          (''homepage'', JStr ''https://github.com/alice/demo#readme'')]))"
  have p: "pkg_t = p" using t mt by (simp add: p_def)
  have u: "unique_keys p" unfolding p_def by code_simp
  have o: "mentions p ''drizzle-orm''" unfolding p_def by code_simp
  have c: "\<forall>q \<in> set (members p).
             last q \<in> Member ` set database_keys \<longrightarrow> (\<exists>e \<in> set deleted_entries. prefix e q)"
    unfolding p_def by code_simp
  have "\<forall>k \<in> set database_keys. \<not> mentions pkg_f k"
    using e(5) u c unfolding p by blast
  then show ?thesis using h r mt mf t f e(4) u o unfolding p by blast
qed

text \<open>
  C2 as stated fails: with \<open>drizzle-kit\<close> listed among the \<open>dependencies\<close> of the template
  and \<open>drizzle-orm\<close> among its \<open>devDependencies\<close>, the manifest written without the
  database feature still has both.
\<close>

theorem database_keys_counterexample:
  "\<not> features.database (features demo_without_database)
   \<and> fst (processPackageJson env3 demo_without_database (world0 [])) = Return ()
   \<and> manifest (snd (processPackageJson env3 demo_without_database (world0 []))) =
       Some (JObj
         [(''scripts'', JObj [(''dev'', JStr ''node --watch src/index.js'')]),
          (''repository'', JObj
             [(''type'', JStr ''git''), (''url'', JStr ''git+https://github.com/alice/demo.git'')]),
          (''bugs'', JObj [(''url'', JStr ''https://github.com/alice/demo/issues'')]),
          (''dependencies'', JObj
             [(''express'', JStr ''^5.1.0''), (''drizzle-kit'', JStr ''^0.31.0'')]),
          (''devDependencies'', JObj
             [(''eslint'', JStr ''^9.0.0''), (''drizzle-orm'', JStr ''^0.44.0'')]),
          (''name'', JStr ''demo''),
          (''description'', JStr ''demo - A Node.js API with DevOps practices''),
          (''author'', JStr ''Ann <ann@example.org>''),
          (''homepage'', JStr ''https://github.com/alice/demo#readme'')])
   \<and> mentions (the (manifest (snd (processPackageJson env3 demo_without_database (world0 [])))))
         ''drizzle-kit''
   \<and> mentions (the (manifest (snd (processPackageJson env3 demo_without_database (world0 [])))))
         ''drizzle-orm''"
  by code_simp

lemma set_member_field:
  assumes "set_member v k x = Inr v'"
  shows "field v' k' = (if k' = k \<and> (\<exists>kvs. v = JObj kvs) then Some x else field v k')"
  using assms
  by (cases v) (auto simp: set_member_def field_def update_conv')

lemma set_member_shape:
  assumes "set_member v k x = Inr v'"
  shows "(\<exists>xs. v' = JArr xs) \<or> field v' k = Some x"
  using assms
  by (cases v) (auto simp: set_member_def field_def update_conv')

lemma set_in_field:
  assumes "set_in obj k j x = Inr obj'"
  shows "(\<exists>v'. field obj' k = Some v' \<and> ((\<exists>xs. v' = JArr xs) \<or> field v' j = Some x))
     \<and> (\<forall>k'. k' \<noteq> k \<longrightarrow> field obj' k' = field obj k')"
proof -
  from assms obtain m v' where m: "get_member obj k = Inr (Some m)" "set_member m j x = Inr v'"
    and o: "obj' = (case obj of JObj kvs \<Rightarrow> JObj (AList.update k v' kvs) | _ \<Rightarrow> obj)"
    by (auto simp: set_in_def in_member_def and_then_Inr split: option.splits)
  from m(1) obtain kvs where kvs: "obj = JObj kvs" "map_of kvs k = Some m"
    by (cases obj) (auto simp: get_member_def)
  show ?thesis
    using set_member_shape [OF m(2)] o kvs by (auto simp: field_def update_conv')
qed

lemma fill_package_urls:
  assumes "fill_package cfg tpl = Inr pkg"
  shows "field pkg ''homepage'' = Some (JStr (github_url cfg @ ''#readme''))
     \<and> (\<exists>r. field pkg ''repository'' = Some r
            \<and> ((\<exists>xs. r = JArr xs)
                 \<or> field r ''url'' = Some (JStr (''git+'' @ github_url cfg @ ''.git''))))"
proof -
  from assms obtain p1 p2 p3 p4 p5 p6 where
    s: "set_in p3 ''repository'' ''url'' (JStr (''git+'' @ github_url cfg @ ''.git'')) = Inr p4"
       "set_in p4 ''bugs'' ''url'' (JStr (github_url cfg @ ''/issues'')) = Inr p5"
       "set_member p5 ''homepage'' (JStr (github_url cfg @ ''#readme'')) = Inr p6"
    and f: "(if \<not> features.database (features cfg) then delete_database_entries p6 else Inr p6)
              = Inr pkg"
    unfolding fill_package_def and_then_Inr by blast
  from set_in_field [OF s(1)] obtain r where
    r: "field p4 ''repository'' = Some r"
       "(\<exists>xs. r = JArr xs) \<or> field r ''url'' = Some (JStr (''git+'' @ github_url cfg @ ''.git''))"
    by blast
  from set_in_field [OF s(2)] obtain b where b: "field p5 ''bugs'' = Some b" by blast
  have r5: "field p5 ''repository'' = Some r"
    using set_in_field [OF s(2)] r(1) by simp
  have obj5: "\<exists>kvs. p5 = JObj kvs" using b by (cases p5) (auto simp: field_def)
  have 6: "field p6 ''homepage'' = Some (JStr (github_url cfg @ ''#readme''))"
       "field p6 ''repository'' = Some r"
    using set_member_field [OF s(3)] obj5 r5 by auto
  have "field pkg ''homepage'' = field p6 ''homepage'' \<and> field pkg ''repository'' = field p6 ''repository''"
  proof (cases "features.database (features cfg)")
    case True
    then show ?thesis using f by simp
  next
    case False
    then have "pkg = without_database_keys p6"
      using f delete_database_entries_Inr by auto
    then show ?thesis by (simp add: field_without_database_keys)
  qed
  then show ?thesis using 6 r(2) by auto
qed

text \<open>
  C3, as amended. The manifest's \<open>homepage\<close> is
  \<open>https://github.com/{githubUsername}/{name}#readme\<close>, and its \<open>repository.url\<close> is
  \<open>git+https://github.com/{githubUsername}/{name}.git\<close>, with the prefix \<open>git+\<close>. (A
  template whose \<open>repository\<close> is an array keeps it as it is: the assignment to \<open>url\<close>
  is not printed.)
\<close>

theorem manifest_urls:
  assumes "processPackageJson env cfg w = (Return (), w')"
  shows "\<exists>pkg. files w' = files w @ [(''package.json'', JsonText pkg)]
     \<and> json_at pkg [''homepage''] =
         Some (JStr (''https://github.com/'' @ githubUsername cfg @ ''/'' @ name cfg @ ''#readme''))
     \<and> (\<exists>r. json_at pkg [''repository''] = Some r
            \<and> ((\<exists>xs. r = JArr xs)
                \<or> json_at pkg [''repository'', ''url''] =
                    Some (JStr (''git+https://github.com/'' @ githubUsername cfg @ ''/'' @ name cfg
                                @ ''.git''))))"
proof -
  from assms obtain tpl pkg where
    p: "fill_package cfg tpl = Inr pkg"
    and w': "w' = w\<lparr>files := files w @ [(''package.json'', JsonText pkg)],
                  console := console w @ [Log (created @ ''package.json'')]\<rparr>"
    unfolding processPackageJson_Return by blast
  from fill_package_urls [OF p] w' show ?thesis
    by (auto simp: github_url_def)
qed

theorem manifest_urls_witness:
  "fst (processPackageJson env1 demo (world0 [])) = Return ()
   \<and> (\<exists>pkg. manifest (snd (processPackageJson env1 demo (world0 []))) = Some pkg
         \<and> json_at pkg [''homepage''] = Some (JStr ''https://github.com/alice/demo#readme'')
         \<and> json_at pkg [''repository'', ''url''] = Some (JStr ''git+https://github.com/alice/demo.git''))"
proof -
  have r: "fst (processPackageJson env1 demo (world0 [])) = Return ()"
    by code_simp
  have u: "Option.bind (manifest (snd (processPackageJson env1 demo (world0 []))))
             (\<lambda>p. json_at p [''repository'', ''url'']) = Some (JStr ''git+https://github.com/alice/demo.git'')"
    by code_simp
  from manifest_urls [OF run_eq [OF r]] obtain pkg where
    p: "files (snd (processPackageJson env1 demo (world0 []))) =
          files (world0 []) @ [(''package.json'', JsonText pkg)]"
       "json_at pkg [''homepage''] =
          Some (JStr (''https://github.com/'' @ githubUsername demo @ ''/'' @ name demo @ ''#readme''))"
    by blast
  have "manifest (snd (processPackageJson env1 demo (world0 []))) = Some pkg"
    using p(1) by (simp add: manifest_def file_content_def world0_def)
  then show ?thesis using r u p(2) by (simp add: demo_def)
qed

text \<open>
  C3 as stated fails: for \<open>alice\<close> and \<open>demo\<close> the written URL is
  \<open>git+https://github.com/alice/demo.git\<close>, not \<open>https://github.com/alice/demo.git\<close>.
\<close>

theorem repository_url_counterexample:
  "fst (processPackageJson env1 demo (world0 [])) = Return ()
   \<and> name demo = ''demo'' \<and> githubUsername demo = ''alice''
   \<and> Option.bind (manifest (snd (processPackageJson env1 demo (world0 []))))
        (\<lambda>p. json_at p [''repository'', ''url'']) = Some (JStr ''git+https://github.com/alice/demo.git'')
   \<and> Option.bind (manifest (snd (processPackageJson env1 demo (world0 []))))
        (\<lambda>p. json_at p [''repository'', ''url'']) \<noteq> Some (JStr ''https://github.com/alice/demo.git'')"
  by code_simp

subsection \<open>Sequencing\<close>

lemma bind_Return: "m w = (Return x, w') \<Longrightarrow> bind m f w = f x w'"
  by (simp add: bind_def)

lemma bind_Throw: "m w = (Throw e, w') \<Longrightarrow> bind m f w = (Throw e, w')"
  by (simp add: bind_def)

lemma seq_Return: "m w = (Return (), w') \<Longrightarrow> seq m n w = n w'"
  by (simp add: seq_def bind_def)

lemma seq_Throw: "m w = (Throw e, w') \<Longrightarrow> seq m n w = (Throw e, w')"
  by (simp add: seq_def bind_def)

subsection \<open>Template processing as a whole\<close>

text \<open>
  With every template readable, the manifest template well formed and no write failing,
  \<open>processTemplateFiles\<close> returns; with the manifest template unreadable it throws
  before it has written anything.
\<close>

lemma quiet_ret: "quiet (ret ())"
  by (simp add: quiet_def ret_def)

lemma quiet_console_log: "quiet (console_log s)"
  by (simp add: quiet_def console_log_def)

lemma quiet_writeFile: "writeFile_error env p = None \<Longrightarrow> quiet (fs_writeFile env p c)"
  by (simp add: quiet_def fs_writeFile_def)

lemma quiet_seq: "quiet m \<Longrightarrow> quiet n \<Longrightarrow> quiet (seq m n)"
  unfolding quiet_def seq_def bind_def
  by (auto split: prod.splits result.splits) (metis fst_conv snd_conv result.distinct result.inject)+

lemma quiet_readFile:
  "readFile env p = Inr t \<Longrightarrow> quiet (f t) \<Longrightarrow> quiet (bind (fs_readFile env p) f)"
  by (simp add: quiet_def bind_def fs_readFile_def lift_def ret_def)

lemma quiet_if: "(c \<Longrightarrow> quiet m) \<Longrightarrow> (\<not> c \<Longrightarrow> quiet n) \<Longrightarrow> quiet (if c then m else n)"
  by simp

lemma quiet_workflow_each:
  assumes "\<And>p. writeFile_error env p = None"
    and "\<forall>wf \<in> set ws. \<exists>c. readFile env (path_join [templateDir env, ''ci-cd'', wf]) = Inr c"
  shows "quiet (workflow_each env cfg ws)"
  using assms(2)
proof (induction ws)
  case Nil
  then show ?case by (simp add: quiet_ret)
next
  case (Cons wf ws)
  then obtain c where c: "readFile env (path_join [templateDir env, ''ci-cd'', wf]) = Inr c"
    by auto
  show ?case
    unfolding workflow_each.simps
    by (intro quiet_readFile [OF c] quiet_seq quiet_writeFile quiet_console_log assms(1))
       (use Cons in auto)
qed

lemma processTemplateFiles_quiet:
  assumes w: "\<And>p. writeFile_error env p = None"
    and pk: "readFile env (path_join [templateDir env, ''config'', ''package.json'']) = Inr t"
      "JSON_parse env t = Inr tpl" "fill_package cfg tpl = Inr pkg"
    and ev: "readFile env (path_join [templateDir env, ''config'', ''.env.example'']) = Inr et"
    and dk: "readFile env (path_join [templateDir env, ''docker'', ''Dockerfile'']) = Inr df"
      "readFile env (path_join [templateDir env, ''docker'', ''docker-compose.dev.yml'']) = Inr dev"
      "readFile env (path_join [templateDir env, ''docker'', ''docker-compose.prod.yml'']) = Inr prd"
    and ci: "\<forall>wf \<in> set workflows. \<exists>c. readFile env (path_join [templateDir env, ''ci-cd'', wf]) = Inr c"
  shows "quiet (processTemplateFiles env cfg)"
proof -
  have 1: "quiet (processPackageJson env cfg)"
    unfolding processPackageJson_def
    by (intro quiet_readFile [OF pk(1)])
       (simp add: pk lift_def bind_def ret_def quiet_def seq_def fs_writeFile_def w console_log_def)
  have 2: "quiet (processEnvFiles env cfg)"
    unfolding processEnvFiles_def
    by (intro quiet_readFile [OF ev] quiet_seq quiet_writeFile quiet_console_log w)
  have 3: "quiet (processDockerFiles env cfg)"
    unfolding processDockerFiles_def fs_copyFile_def
    by (intro quiet_readFile [OF dk(1)] quiet_readFile [OF dk(2)] quiet_readFile [OF dk(3)]
          quiet_seq quiet_writeFile quiet_console_log w)
  have 4: "quiet (processCICDFiles env cfg)"
    unfolding processCICDFiles_def by (rule quiet_workflow_each [OF w ci])
  have 5: "quiet (createBaseCodeFiles env cfg)"
    unfolding createBaseCodeFiles_def
    by (intro quiet_seq quiet_writeFile quiet_console_log w)
  have 6: "quiet (createConfigFiles env cfg)"
    unfolding createConfigFiles_def
    by (intro quiet_seq quiet_writeFile quiet_console_log w)
  show ?thesis
    unfolding processTemplateFiles_def
    by (intro quiet_seq quiet_console_log quiet_if quiet_ret 1 2 3 4 5 6)
qed

lemma processTemplateFiles_unreadable:
  assumes "readFile env (path_join [templateDir env, ''config'', ''package.json'']) = Inl e"
  shows "processTemplateFiles env cfg w =
     (Throw e, w\<lparr>console := console w @
        [Log [], Log ([CHR 0xF0, CHR 0x9F, CHR 0x93, CHR 0x84] @ '' Processing template files...'')]\<rparr>)"
  by (simp add: processTemplateFiles_def processPackageJson_def seq_def bind_def console_log_def
        fs_readFile_def lift_def throw_def assms)

lemma showWelcome_result:
  "showWelcome w =
     (Return (), w\<lparr>console := console w @
        [Log ([CHR 0xF0, CHR 0x9F, CHR 0x9A, CHR 0x80] @ '' Node.js DevOps Project Initializer''),
         Log ''====================================='',
         Log ''This tool will help you set up a new Node.js project with DevOps best practices.'',
         Log []]\<rparr>)"
  by (simp add: showWelcome_def seq_def bind_def console_log_def)

subsection \<open>The function \<open>main\<close>\<close>

lemma installDependencies_result:
  "installDependencies env w =
     (Return (),
      w\<lparr>commands := commands w @ [''npm install''],
        console := console w @
          [Log [], Log ([CHR 0xF0, CHR 0x9F, CHR 0x93, CHR 0xA6] @ '' Installing dependencies...'')]
          @ (case execSync_error env ''npm install'' of
               None \<Rightarrow> [Log (''  '' @ [CHR 0xE2, CHR 0x9C, CHR 0x85] @ '' Dependencies installed successfully'')]
             | Some e \<Rightarrow> [Error (install_failed @ '' '' @ e), Log install_hint])\<rparr>)"
  by (simp add: installDependencies_def seq_def bind_def try_catch_def execSync_def
        console_log_def console_error_def split: option.splits)

lemma initializeGit_result:
  "initializeGit env w =
     (Return (),
      w\<lparr>commands := commands w @ git_commands env,
        console := console w @
          [Log [], Log ([CHR 0xF0, CHR 0x9F, CHR 0x94, CHR 0x84] @ '' Initializing Git repository...'')]
          @ (case git_error env of
               None \<Rightarrow> [Log (''  '' @ [CHR 0xE2, CHR 0x9C, CHR 0x85] @ '' Git repository initialized'')]
             | Some e \<Rightarrow> [Error (git_failed @ '' '' @ e), Log git_hint])\<rparr>)"
  by (simp add: initializeGit_def seq_def bind_def try_catch_def execSync_def git_error_def
        git_commands_def console_log_def console_error_def split: option.splits)

lemma showCompletion_facts:
  "fst (showCompletion cfg w) = Return ()
   \<and> dirs (snd (showCompletion cfg w)) = dirs w
   \<and> files (snd (showCompletion cfg w)) = files w
   \<and> commands (snd (showCompletion cfg w)) = commands w
   \<and> Log completed \<in> set (console (snd (showCompletion cfg w)))
   \<and> set (console w) \<subseteq> set (console (snd (showCompletion cfg w)))
   \<and> last (console (snd (showCompletion cfg w))) =
       Log (''Happy coding! '' @ [CHR 0xF0, CHR 0x9F, CHR 0x9A, CHR 0x80])"
  by (auto simp: showCompletion_def seq_def bind_def console_log_def ret_def)

text \<open>
  What \<open>main\<close> does when it is called. Once the input has been collected, the directories
  created and the templates processed, it ends with exit status 0 whatever \<open>npm install\<close>
  and the \<open>git\<close> commands do. A failure of \<open>npm install\<close> is printed together with the hint to install
  by hand, and \<open>git init\<close> is still run; a failure of a \<open>git\<close> command is printed
  together with the hint to initialise by hand; the completion summary is printed, down
  to its last line. No directory or file is touched in these steps.
\<close>

lemma main_best_effort:
  assumes "showWelcome w = (Return (), w1)"
    and "collectProjectInfo projectConfig w1 = (Return cfg, w2)"
    and "createProjectStructure env cfg w2 = (Return (), w3)"
    and "processTemplateFiles env cfg w3 = (Return (), w4)"
  shows "\<exists>w'. main env w = (Exited 0, w')
    \<and> dirs w' = dirs w4 \<and> files w' = files w4
    \<and> commands w' = commands w4 @ ''npm install'' # git_commands env
    \<and> (\<forall>e. execSync_error env ''npm install'' = Some e \<longrightarrow>
          Error (install_failed @ '' '' @ e) \<in> set (console w') \<and> Log install_hint \<in> set (console w'))
    \<and> (\<forall>e. git_error env = Some e \<longrightarrow>
          Error (git_failed @ '' '' @ e) \<in> set (console w') \<and> Log git_hint \<in> set (console w'))
    \<and> Log completed \<in> set (console w')
    \<and> last (console w') = Log (''Happy coding! '' @ [CHR 0xF0, CHR 0x9F, CHR 0x9A, CHR 0x80])"
proof -
  let ?w6 = "snd (initializeGit env (snd (installDependencies env w4)))"
  have b: "main_body env w = showCompletion cfg ?w6"
    by (simp add: main_body_def seq_def bind_def assms installDependencies_result
          initializeGit_result)
  have c: "showCompletion cfg ?w6 = (Return (), snd (showCompletion cfg ?w6))"
    using showCompletion_facts by (intro run_eq) blast
  have m: "main env w = (Exited 0, snd (showCompletion cfg ?w6))"
    unfolding main_def b by (subst c) simp
  have k: "set (console ?w6) \<subseteq> set (console (snd (showCompletion cfg ?w6)))"
    using showCompletion_facts by blast
  have i: "\<forall>e. execSync_error env ''npm install'' = Some e \<longrightarrow>
          Error (install_failed @ '' '' @ e) \<in> set (console ?w6) \<and> Log install_hint \<in> set (console ?w6)"
    by (simp add: installDependencies_result initializeGit_result)
  have g: "\<forall>e. git_error env = Some e \<longrightarrow>
          Error (git_failed @ '' '' @ e) \<in> set (console ?w6) \<and> Log git_hint \<in> set (console ?w6)"
    by (simp add: installDependencies_result initializeGit_result)
  have d: "dirs ?w6 = dirs w4" "files ?w6 = files w4"
    "commands ?w6 = commands w4 @ ''npm install'' # git_commands env"
    by (simp_all add: installDependencies_result initializeGit_result)
  show ?thesis
    using m k i g d showCompletion_facts [of cfg ?w6] by (intro exI [of _ "snd (showCompletion cfg ?w6)"]) auto
qed

text \<open>
  When the collector, the directory builder or the template processing throws, \<open>main\<close>
  prints the message after \<open>Error during initialization:\<close> and ends the process with
  exit status 1. The directories and files are those that existed when the exception was
  thrown: nothing is removed.
\<close>

lemma main_fatal:
  assumes "showWelcome w = (Return (), w1)"
    and "collectProjectInfo projectConfig w1 = (Throw e, wt)
       \<or> (\<exists>cfg w2. collectProjectInfo projectConfig w1 = (Return cfg, w2)
            \<and> (createProjectStructure env cfg w2 = (Throw e, wt)
                \<or> (\<exists>w3. createProjectStructure env cfg w2 = (Return (), w3)
                      \<and> processTemplateFiles env cfg w3 = (Throw e, wt))))"
  shows "main env w = (Exited 1, wt\<lparr>console := console wt @ [Error (init_failed @ '' '' @ e)]\<rparr>)
    \<and> dirs (snd (main env w)) = dirs wt \<and> files (snd (main env w)) = files wt"
proof -
  have "main_body env w = (Throw e, wt)"
    using assms
    by (auto simp: main_body_def seq_def bind_def)
  then show ?thesis by (simp add: main_def)
qed

subsection \<open>Example calls of \<open>main\<close>\<close>

lemma demo_collected:
  "collectProjectInfo projectConfig (snd (showWelcome (world0 demo_answers))) =
     (Return demo, snd (collectProjectInfo projectConfig (snd (showWelcome (world0 demo_answers)))))"
  "dirs (snd (collectProjectInfo projectConfig (snd (showWelcome (world0 demo_answers))))) = []"
  "files (snd (collectProjectInfo projectConfig (snd (showWelcome (world0 demo_answers))))) = []"
  "commands (snd (collectProjectInfo projectConfig (snd (showWelcome (world0 demo_answers))))) = []"
proof -
  have s: "stdin (snd (showWelcome (world0 demo_answers))) =
      Inr ''demo'' # Inr [] # Inr ''Ann'' # Inr ''ann@example.org'' # Inr ''alice'' # Inr []
        # Inr [] # Inr [] # Inr []
        # (if toLowerCase [] = ''n'' then [] else [Inr []]) @ Inr [] # Inr [] # []"
    by (simp add: showWelcome_result world0_def demo_answers_def toLowerCase_n)
  have c: "projectConfig\<lparr>name := ''demo'',
        description := or_else [] (''demo'' @ '' - A Node.js API with DevOps practices''),
        author := ''Ann'', email := ''ann@example.org'', githubUsername := ''alice'',
        dockerUsername := or_else [] ''alice'',
        config.database :=
          (if toLowerCase [] = ''n'' then config.database projectConfig
           else or_else [] ''postgresql''),
        features := (features projectConfig)\<lparr>
          docker := toLowerCase [] \<noteq> ''n'',
          cicd := toLowerCase [] \<noteq> ''n'',
          features.database := toLowerCase [] \<noteq> ''n'',
          redis := toLowerCase [] = ''y'',
          monitoring := toLowerCase [] \<noteq> ''n''\<rparr>\<rparr> = demo"
    by (simp add: projectConfig_def demo_def or_else_def toLowerCase_n toLowerCase_y)
  show "collectProjectInfo projectConfig (snd (showWelcome (world0 demo_answers))) =
     (Return demo, snd (collectProjectInfo projectConfig (snd (showWelcome (world0 demo_answers)))))"
    by (rule run_eq) (simp only: collect_returns [OF s] fst_conv c)
  show "dirs (snd (collectProjectInfo projectConfig (snd (showWelcome (world0 demo_answers))))) = []"
    "files (snd (collectProjectInfo projectConfig (snd (showWelcome (world0 demo_answers))))) = []"
    "commands (snd (collectProjectInfo projectConfig (snd (showWelcome (world0 demo_answers))))) = []"
    unfolding collect_returns [OF s] by (simp_all add: showWelcome_result world0_def)
qed

lemma env1_reads:
  "readFile env1 (path_join [templateDir env1, ''config'', ''package.json'']) = Inr example_package_text"
  "\<exists>t. readFile env1 (path_join [templateDir env1, ''config'', ''.env.example'']) = Inr t"
  "\<exists>t. readFile env1 (path_join [templateDir env1, ''docker'', ''Dockerfile'']) = Inr t"
  "\<exists>t. readFile env1 (path_join [templateDir env1, ''docker'', ''docker-compose.dev.yml'']) = Inr t"
  "\<exists>t. readFile env1 (path_join [templateDir env1, ''docker'', ''docker-compose.prod.yml'']) = Inr t"
  "\<forall>wf \<in> set workflows. \<exists>c. readFile env1 (path_join [templateDir env1, ''ci-cd'', wf]) = Inr c"
  by (simp_all add: env1_def example_templates_def path_join_def workflows_def)

lemma env1_quiet: "quiet (processTemplateFiles (env1\<lparr>execSync_error := x\<rparr>) demo)"
proof -
  have p: "\<exists>pkg. fill_package demo example_package = Inr pkg"
    by (rule exI [of _ "projr (fill_package demo example_package)"]) code_simp
  have j: "JSON_parse env1 example_package_text = Inr example_package"
    by (simp add: env1_def)
  have w: "\<And>p. writeFile_error env1 p = None"
    by (simp add: env1_def)
  from env1_reads p obtain pkg et df dev prd where
    "fill_package demo example_package = Inr pkg"
    "readFile env1 (path_join [templateDir env1, ''config'', ''.env.example'']) = Inr et"
    "readFile env1 (path_join [templateDir env1, ''docker'', ''Dockerfile'']) = Inr df"
    "readFile env1 (path_join [templateDir env1, ''docker'', ''docker-compose.dev.yml'']) = Inr dev"
    "readFile env1 (path_join [templateDir env1, ''docker'', ''docker-compose.prod.yml'']) = Inr prd"
    by blast
  then show ?thesis
    using env1_reads(1,6) j w
    by (intro processTemplateFiles_quiet [where t = example_package_text and tpl = example_package
          and pkg = pkg and et = et and df = df and dev = dev and prd = prd]) simp_all
qed

text \<open>
  \<open>npm install\<close> and \<open>git init\<close> both fail: both failures and both hints are printed,
  \<open>git add\<close> and \<open>git commit\<close> are not run, the summary is printed and \<open>main\<close> ends
  with exit status 0.
\<close>

lemma main_best_effort_example:
  "fst (main env2 (world0 demo_answers)) = Exited 0
   \<and> execSync_error env2 ''npm install'' = Some ''Command failed: npm install''
   \<and> git_error env2 = Some ''Command failed: git init''
   \<and> commands (snd (main env2 (world0 demo_answers))) = [''npm install'', ''git init'']
   \<and> Error (install_failed @ '' Command failed: npm install'')
        \<in> set (console (snd (main env2 (world0 demo_answers))))
   \<and> Log install_hint \<in> set (console (snd (main env2 (world0 demo_answers))))
   \<and> Error (git_failed @ '' Command failed: git init'')
        \<in> set (console (snd (main env2 (world0 demo_answers))))
   \<and> Log git_hint \<in> set (console (snd (main env2 (world0 demo_answers))))
   \<and> Log completed \<in> set (console (snd (main env2 (world0 demo_answers))))"
proof -
  define w where "w = world0 demo_answers"
  define w1 where "w1 = snd (showWelcome w)"
  define w2 where "w2 = snd (collectProjectInfo projectConfig w1)"
  define w3 where "w3 = snd (createProjectStructure env2 demo w2)"
  define w4 where "w4 = snd (processTemplateFiles env2 demo w3)"
  have a: "showWelcome w = (Return (), w1)"
    unfolding w1_def by (rule run_eq) (simp add: showWelcome_result)
  have b: "collectProjectInfo projectConfig w1 = (Return demo, w2)"
    unfolding w2_def w1_def w_def by (rule demo_collected(1))
  have b': "commands w2 = []"
    unfolding w2_def w1_def w_def by (rule demo_collected(4))
  have m: "\<forall>d \<in> set (directories demo). mkdir_error env2 d = None"
    by (simp add: env2_def env1_def)
  have c: "createProjectStructure env2 demo w2 = (Return (), w3)"
    unfolding w3_def by (rule run_eq) (simp add: createProjectStructure_ok [OF m])
  have c': "commands w3 = []"
    unfolding w3_def by (simp add: createProjectStructure_ok [OF m] b')
  have q: "quiet (processTemplateFiles env2 demo)"
    unfolding env2_def by (rule env1_quiet)
  have d: "processTemplateFiles env2 demo w3 = (Return (), w4)"
    unfolding w4_def using q by (intro run_eq) (simp add: quiet_def)
  have f: "commands w4 = []"
    unfolding w4_def using q c' by (simp add: quiet_def)
  have e: "execSync_error env2 ''npm install'' = Some ''Command failed: npm install''"
    "git_error env2 = Some ''Command failed: git init''"
    "git_commands env2 = [''git init'']"
    by (simp_all add: env2_def env1_def git_error_def git_commands_def)
  from main_best_effort [OF a b c d] obtain w' where
    r: "main env2 w = (Exited 0, w')"
       "commands w' = commands w4 @ ''npm install'' # git_commands env2"
       "\<forall>e. execSync_error env2 ''npm install'' = Some e \<longrightarrow>
          Error (install_failed @ '' '' @ e) \<in> set (console w') \<and> Log install_hint \<in> set (console w')"
       "\<forall>e. git_error env2 = Some e \<longrightarrow>
          Error (git_failed @ '' '' @ e) \<in> set (console w') \<and> Log git_hint \<in> set (console w')"
       "Log completed \<in> set (console w')"
    by blast
  have 1: "fst (main env2 (world0 demo_answers)) = Exited 0"
    and 2: "snd (main env2 (world0 demo_answers)) = w'"
    using r(1) by (simp_all add: w_def)
  from r(3) e(1) have 3: "Error (install_failed @ '' Command failed: npm install'') \<in> set (console w')"
    "Log install_hint \<in> set (console w')"
    by auto
  from r(4) e(2) have 4: "Error (git_failed @ '' Command failed: git init'') \<in> set (console w')"
    "Log git_hint \<in> set (console w')"
    by auto
  have 5: "commands w' = [''npm install'', ''git init'']"
    using r(2) f e(3) by simp
  show ?thesis
    unfolding 2 using 1 e(1,2) 3 4 5 r(5) by simp
qed

text \<open>
  No template can be read: the seventeen directories have been created when
  \<open>processPackageJson\<close> throws, and they are still there when \<open>main\<close> ends with exit
  status 1.
\<close>

lemma main_fatal_example:
  "fst (main env0 (world0 demo_answers)) = Exited 1
   \<and> dirs (snd (main env0 (world0 demo_answers))) =
       [''src'', ''src/config'', ''src/controllers'', ''src/middleware'', ''src/models'',
        ''src/routes'', ''src/services'', ''src/utils'', ''src/validations'', ''tests'',
        ''tests/unit'', ''tests/integration'', ''logs'', ''scripts'', ''nginx'', ''.github'',
        ''.github/workflows'']
   \<and> files (snd (main env0 (world0 demo_answers))) = []
   \<and> last (console (snd (main env0 (world0 demo_answers)))) = Error (init_failed @ '' ENOENT'')"
proof -
  define w where "w = world0 demo_answers"
  define w1 where "w1 = snd (showWelcome w)"
  define w2 where "w2 = snd (collectProjectInfo projectConfig w1)"
  define w3 where "w3 = snd (createProjectStructure env0 demo w2)"
  define w4 where "w4 = snd (processTemplateFiles env0 demo w3)"
  have a: "showWelcome w = (Return (), w1)"
    unfolding w1_def by (rule run_eq) (simp add: showWelcome_result)
  have b: "collectProjectInfo projectConfig w1 = (Return demo, w2)"
    unfolding w2_def w1_def w_def by (rule demo_collected(1))
  have b': "dirs w2 = []" "files w2 = []"
    unfolding w2_def w1_def w_def by (rule demo_collected(2), rule demo_collected(3))
  have m: "\<forall>d \<in> set (directories demo). mkdir_error env0 d = None"
    by (simp add: env0_def)
  have c: "createProjectStructure env0 demo w2 = (Return (), w3)"
    unfolding w3_def by (rule run_eq) (simp add: createProjectStructure_ok [OF m])
  have c': "dirs w3 = directories demo" "files w3 = []"
    unfolding w3_def by (simp_all add: createProjectStructure_ok [OF m] b')
  have u: "readFile env0 (path_join [templateDir env0, ''config'', ''package.json'']) = Inl ''ENOENT''"
    by (simp add: env0_def)
  have d: "processTemplateFiles env0 demo w3 = (Throw ''ENOENT'', w4)"
    unfolding w4_def by (rule run_eq) (simp add: processTemplateFiles_unreadable [OF u])
  have f: "dirs w4 = directories demo" "files w4 = []"
    unfolding w4_def by (simp_all add: processTemplateFiles_unreadable [OF u] c')
  have g: "directories demo =
       [''src'', ''src/config'', ''src/controllers'', ''src/middleware'', ''src/models'',
        ''src/routes'', ''src/services'', ''src/utils'', ''src/validations'', ''tests'',
        ''tests/unit'', ''tests/integration'', ''logs'', ''scripts'', ''nginx'', ''.github'',
        ''.github/workflows'']"
    by (simp add: directories_def base_directories_def demo_def)
  have "main env0 w = (Exited 1, w4\<lparr>console := console w4 @ [Error (init_failed @ '' '' @ ''ENOENT'')]\<rparr>)
    \<and> dirs (snd (main env0 w)) = dirs w4 \<and> files (snd (main env0 w)) = files w4"
    using b c d by (intro main_fatal [OF a]) blast
  then show ?thesis
    unfolding w_def [symmetric] using f g by simp
qed

subsection \<open>The process\<close>

text \<open>
  The five literals of lines 316 to 379 are well formed. The literal of line 380 ends at
  the slash that follows its last pair of backslashes, and the identifier characters after
  that slash, \<open>your\<close>, stand where the flags belong.
\<close>

lemma regex_literals_ok:
  "regex_literal_ok regex_316" "regex_literal_ok regex_317" "regex_literal_ok regex_337"
  "regex_literal_ok regex_343" "regex_literal_ok regex_379"
  by code_simp+

lemma regex_380_read:
  "regex_body False (tl regex_380) =
     Some ([CHR 0x5C, CHR 0x5C] @ ''$'' @ [CHR 0x5C, CHR 0x5C] @ ''{'' @ [CHR 0x5C, CHR 0x5C]
           @ ''{ secrets'' @ [CHR 0x5C, CHR 0x5C] @ ''.DOCKER_USERNAME '' @ [CHR 0x5C, CHR 0x5C]
           @ ''}'' @ [CHR 0x5C, CHR 0x5C] @ ''}'' @ [CHR 0x5C, CHR 0x5C],
           ''your-app-name/g, '')"
  by code_simp

lemma regex_380_flags: "regex_flags ''your-app-name/g, '' = ''your''"
  by code_simp






subsection \<open>The unused feature flags\<close>

text \<open>
  C10. The flags \<open>redis\<close> and \<open>monitoring\<close> are read nowhere after the collector: a
  configuration and the same configuration with other values for the two flags give the
  same list of directories, and \<open>createProjectStructure\<close> and \<open>processTemplateFiles\<close>
  do the same from every world (same result, same directories, same files with the same
  content, same console output).
\<close>

theorem redis_monitoring_unused:
  "directories (cfg\<lparr>features := (features cfg)\<lparr>redis := r, monitoring := m\<rparr>\<rparr>) = directories cfg
   \<and> createProjectStructure env (cfg\<lparr>features := (features cfg)\<lparr>redis := r, monitoring := m\<rparr>\<rparr>) w
       = createProjectStructure env cfg w
   \<and> processTemplateFiles env (cfg\<lparr>features := (features cfg)\<lparr>redis := r, monitoring := m\<rparr>\<rparr>) w
       = processTemplateFiles env cfg w"
proof -
  let ?cfg = "cfg\<lparr>features := (features cfg)\<lparr>redis := r, monitoring := m\<rparr>\<rparr>"
  have 1: "directories ?cfg = directories cfg"
    by (simp add: directories_def)
  have 2: "createProjectStructure env ?cfg = createProjectStructure env cfg"
    by (simp add: createProjectStructure_def 1)
  have 3: "processPackageJson env ?cfg = processPackageJson env cfg"
    by (simp add: processPackageJson_def fill_package_def github_url_def)
  have 4: "processEnvFiles env ?cfg = processEnvFiles env cfg"
    by (simp add: processEnvFiles_def env_content_def)
  have 5: "processDockerFiles env ?cfg = processDockerFiles env cfg"
    by (simp add: processDockerFiles_def compose_content_def)
  have 6: "workflow_each env ?cfg ws = workflow_each env cfg ws" for ws
    by (induction ws) (simp_all add: workflow_content_def)
  have 7: "createBaseCodeFiles env ?cfg = createBaseCodeFiles env cfg"
    by (simp add: createBaseCodeFiles_def serverJs_def)
  have 8: "createConfigFiles env ?cfg = createConfigFiles env cfg"
    by (simp add: createConfigFiles_def readme_def)
  have 9: "processTemplateFiles env ?cfg = processTemplateFiles env cfg"
    by (simp add: processTemplateFiles_def processCICDFiles_def 3 4 5 6 7 8)
  show ?thesis by (simp add: 1 2 9)
qed

theorem redis_monitoring_unused_witness:
  "redis (features (demo\<lparr>features := (features demo)\<lparr>redis := True, monitoring := False\<rparr>\<rparr>))
     \<noteq> redis (features demo)
   \<and> monitoring (features (demo\<lparr>features := (features demo)\<lparr>redis := True, monitoring := False\<rparr>\<rparr>))
       \<noteq> monitoring (features demo)
   \<and> fst (processTemplateFiles env1 demo (world0 [])) = Return ()
   \<and> processTemplateFiles env1
         (demo\<lparr>features := (features demo)\<lparr>redis := True, monitoring := False\<rparr>\<rparr>) (world0 [])
       = processTemplateFiles env1 demo (world0 [])
   \<and> createProjectStructure env1
         (demo\<lparr>features := (features demo)\<lparr>redis := True, monitoring := False\<rparr>\<rparr>) (world0 [])
       = createProjectStructure env1 demo (world0 [])"
proof -
  have "quiet (processTemplateFiles env1 demo)"
    using env1_quiet [of "execSync_error env1"] by simp
  then have "fst (processTemplateFiles env1 demo (world0 [])) = Return ()"
    by (simp add: quiet_def)
  then show ?thesis
    using redis_monitoring_unused
      [where cfg = demo and r = True and m = False and env = env1 and w = "world0 []"]
    by (simp add: demo_def)
qed

end
